theory Spec2Isabelle
  imports Main "HOL-Library.Word" "HOL-Library.Multiset"
begin

section \<open>JavaScript strings and numbers\<close>

text \<open>
  A JavaScript string is a sequence of UTF-16 code units. Every glyph of the table
  used by \<open>toArabicDigits\<close> (U+0660 .. U+0669) is one code unit, so indexing the table
  by position is indexing by code unit, as \<open>digits[i]\<close> does in the source.
  ASCII literals of the source are written \<open>js ''...''\<close>.
\<close>

type_synonym code_unit = "16 word"
type_synonym jsstring = "code_unit list"

definition js :: "string \<Rightarrow> jsstring" where
  "js s = map (\<lambda>c. of_nat (of_char c)) s"

text \<open>The pattern \<open>\d\<close> (no unicode flag) matches exactly the code units of 0 .. 9.\<close>

definition is_digit :: "code_unit \<Rightarrow> bool" where
  "is_digit c \<longleftrightarrow> 0x30 \<le> c \<and> c \<le> 0x39"

definition digit_char :: "nat \<Rightarrow> code_unit" where
  "digit_char d = of_nat (48 + d)"

text \<open>
  A JavaScript number is a double. \<open>Number.prototype.toString\<close> on a safe integer
  (magnitude at most \<open>MAX_SAFE_INTEGER\<close>, that is \<open>2^53 - 1\<close>) gives an optional minus
  sign, then the exact decimal digits, most significant first, with no leading zero.
  That is what \<open>toString\<close> below computes. Beyond the safe range the engine prints the
  shortest digits that read back as the same double, and from \<open>10^21\<close> on the exponent
  notation; those, non-integral numbers and \<open>NaN\<close> are floating point and are not
  part of this model: the properties of the transliteration are stated for safe
  integers. \<open>numberInSurah\<close> is a verse count.
\<close>

definition MAX_SAFE_INTEGER :: int where
  "MAX_SAFE_INTEGER = 9007199254740991"

fun dec_digits :: "nat \<Rightarrow> nat list" where
  "dec_digits n = (if n < 10 then [n] else dec_digits (n div 10) @ [n mod 10])"

declare dec_digits.simps [simp del]

definition toString :: "int \<Rightarrow> jsstring" where
  "toString n =
     (if n < 0 then 0x2D # map digit_char (dec_digits (nat (- n)))
      else map digit_char (dec_digits (nat n)))"

text \<open>
  \<open>parseInt\<close> on a string that starts with neither white space, a sign nor a radix
  prefix: the value of the leading run of decimal digits, \<open>None\<close> for \<open>NaN\<close>.
  The source calls it on one match of \<open>\d\<close> only.
\<close>

definition parseInt :: "jsstring \<Rightarrow> nat option" where
  "parseInt s =
     (let ds = takeWhile is_digit s
      in if ds = [] then None
         else Some (foldl (\<lambda>a c. 10 * a + (unat c - 48)) 0 ds))"

text \<open>\<open>s[i]\<close> on a string: the one-unit string at \<open>i\<close>, \<open>None\<close> for \<open>undefined\<close>.\<close>

definition str_index :: "jsstring \<Rightarrow> nat option \<Rightarrow> jsstring option" where
  "str_index s i =
     (case i of None \<Rightarrow> None
      | Some k \<Rightarrow> if k < length s then Some [s ! k] else None)"

text \<open>\<open>a ?? b\<close>\<close>

definition nullish :: "'a option \<Rightarrow> 'a \<Rightarrow> 'a" where
  "nullish a b = (case a of None \<Rightarrow> b | Some v \<Rightarrow> v)"

text \<open>
  \<open>s.replace(/\d/g, f)\<close>: every code unit matched by \<open>\d\<close> is replaced by what the
  callback returns for it, every other code unit is copied.
\<close>

definition replace_digits :: "(jsstring \<Rightarrow> jsstring) \<Rightarrow> jsstring \<Rightarrow> jsstring" where
  "replace_digits f s = concat (map (\<lambda>c. if is_digit c then f [c] else [c]) s)"

section \<open>main.ts: digit transliteration\<close>

definition digits :: jsstring where
  "digits = [0x660, 0x661, 0x662, 0x663, 0x664, 0x665, 0x666, 0x667, 0x668, 0x669]"

definition arabicDigit :: "jsstring \<Rightarrow> jsstring" where
  "arabicDigit d = nullish (str_index digits (parseInt d)) d"

definition toArabicDigits :: "int \<Rightarrow> jsstring" where
  "toArabicDigits num = replace_digits arabicDigit (toString num)"


section \<open>Shared data of main.ts and settings.ts\<close>

text \<open>
  The sources hold several revisions of \<open>main.ts\<close> and \<open>settings.ts\<close>. The
  embedding follows the current one: \<open>renderVerse\<close> with the \<open>MarkdownRenderChild\<close>
  cleanup, and the settings tab whose \<open>fetchMetadata\<close> calls \<open>fetchLanguages\<close>,
  \<open>fetchTranslationEditions\<close> and \<open>fetchAndProcessTafsirs\<close>.
\<close>

text \<open>What a \<open>throw\<close> or a rejected promise carries.\<close>

datatype error = Rejection | Error string

text \<open>
  \<open>await requestUrl(url)\<close> followed by the read of \<open>.json\<close>: \<open>Rejects\<close> stands for
  every way these two steps throw (transport failure, HTTP error status, a body that is
  not JSON); \<open>Resolves\<close> carries the payload, typed as the source's cast types it.
\<close>

datatype 'a http = Rejects | Resolves 'a

record 'a Response =
  code :: int
  status :: jsstring
  data :: 'a

record QuranSettings =
  translation :: jsstring
  language :: jsstring
  fontSize :: jsstring
  backgroundColor :: jsstring
  accentColor :: jsstring
  tafsir :: jsstring
  tafsirName :: jsstring
  tafsirLanguage :: jsstring
  font :: jsstring

section \<open>main.ts: the verse card\<close>

text \<open>
  \<open>AyahData\<close>; \<open>text\<close> is primed (a keyword), and the fields of the inline \<open>surah\<close> and \<open>edition\<close> objects carry a
  prefix, since record fields share one name space.
\<close>

record SurahRef =
  surah_number :: int
  surah_name :: jsstring
  surah_englishName :: jsstring

record EditionRef =
  edition_identifier :: jsstring
  edition_language :: jsstring
  edition_name :: jsstring
  edition_direction :: "jsstring option"

record AyahData =
  number :: int
  text' :: jsstring
  numberInSurah :: int
  surah :: SurahRef
  edition :: EditionRef

type_synonym ApiResponse = "AyahData Response"

text \<open>
  The remote verse service: the answer to the \<open>n\<close>-th request of the run, for the URL
  requested. Two requests for one URL may be answered differently.
\<close>

type_synonym remote = "nat \<Rightarrow> jsstring \<Rightarrow> ApiResponse http"

text \<open>The children of the card's container, as far as they are told apart here.\<close>

datatype node =
    Header
  | SkeletonArabic
  | SkeletonDivider
  | SkeletonEnglish
  | SkeletonMeta
  | QuranArabic jsstring
  | QuranTranslation bool jsstring
  | QuranFooter jsstring

text \<open>
  The state \<open>renderVerse\<close> reads and writes: whether \<open>el\<close> is in the document, the
  identity and the children of the container now inside \<open>el\<close>, the requests issued so
  far, the pending timers of \<open>window.setTimeout\<close> (id, delay in ms, the container the
  callback captured), and the cleanup components added to \<open>ctx\<close> (each holds the
  timer id its \<open>onunload\<close> clears).
\<close>

record view =
  attached :: bool
  container :: nat
  content :: "node list"
  requests :: "jsstring list"
  timers :: "(nat \<times> nat \<times> nat) list"
  nextTimer :: nat
  children :: "nat list"

definition init :: view where
  "init = \<lparr>attached = True, container = 0, content = [], requests = [],
           timers = [], nextTimer = 0, children = []\<rparr>"

definition ayahUrl :: "int \<Rightarrow> jsstring" where
  "ayahUrl n = js ''https://api.alquran.cloud/v1/ayah/'' @ toString n"

definition editionUrl :: "int \<Rightarrow> jsstring \<Rightarrow> jsstring" where
  "editionUrl n ed = ayahUrl n @ js ''/'' @ ed"

definition requestUrl :: "remote \<Rightarrow> jsstring \<Rightarrow> view \<Rightarrow> ApiResponse http \<times> view" where
  "requestUrl r url s = (r (length (requests s)) url, s\<lparr>requests := requests s @ [url]\<rparr>)"

definition isSkeleton :: "node \<Rightarrow> bool" where
  "isSkeleton n \<longleftrightarrow> n = SkeletonArabic \<or> n = SkeletonDivider \<or> n = SkeletonEnglish \<or> n = SkeletonMeta"

text \<open>Lines 115 to 223: the skeletons go, the verse, the translation and the footer come.\<close>

definition renderCard :: "AyahData \<Rightarrow> AyahData \<Rightarrow> view \<Rightarrow> view" where
  "renderCard arData trData s =
     (let ayahNumberInArabic = toArabicDigits (numberInSurah arData);
          isTranslationRtl = (edition_direction (edition trData) = Some (js ''rtl''))
      in s\<lparr>content := filter (\<lambda>n. \<not> isSkeleton n) (content s) @
            [QuranArabic (text' arData @ [0x20, 0x6DD] @ ayahNumberInArabic),
             QuranTranslation isTranslationRtl (text' trData),
             QuranFooter ([0x2014, 0x20] @ surah_englishName (surah trData) @ js '' ('' @
                          toString (surah_number (surah trData)) @ js ''), Ayah '' @
                          toString (numberInSurah trData))]\<rparr>)"

text \<open>
  The body of the \<open>try\<close>. \<open>k\<close> is \<open>Math.floor(Math.random() * 6236)\<close>. Both edition
  requests are issued before either is awaited (\<open>Promise.all\<close>), so both are in the
  log even when the first of them rejects.
\<close>

definition tryBody :: "remote \<Rightarrow> QuranSettings \<Rightarrow> nat \<Rightarrow> view \<Rightarrow> error option \<times> view" where
  "tryBody r settings k s0 =
     (let (randomRes, s1) = requestUrl r (ayahUrl (int k + 1)) s0
      in case randomRes of
           Rejects \<Rightarrow> (Some Rejection, s1)
         | Resolves randomJson \<Rightarrow>
             if code randomJson \<noteq> 200 then (Some (Error ''Random API Error''), s1)
             else
               let reference = number (data randomJson);
                   (arRes, s2) = requestUrl r (editionUrl reference (js ''quran-uthmani'')) s1;
                   (trRes, s3) = requestUrl r (editionUrl reference (translation settings)) s2
               in case arRes of
                    Rejects \<Rightarrow> (Some Rejection, s3)
                  | Resolves arJson \<Rightarrow>
                      (case trRes of
                         Rejects \<Rightarrow> (Some Rejection, s3)
                       | Resolves trJson \<Rightarrow>
                           if code arJson \<noteq> 200 \<or> code trJson \<noteq> 200
                           then (Some (Error ''Edition API Error''), s3)
                           else (None, renderCard (data arJson) (data trJson) s3)))"

text \<open>
  The \<open>catch\<close>: one timer of 5000 ms whose callback captured this attempt's container,
  and one cleanup child on \<open>ctx\<close> that clears it.
\<close>

definition catchBlock :: "nat \<Rightarrow> view \<Rightarrow> view" where
  "catchBlock c s =
     s\<lparr>timers := timers s @ [(nextTimer s, 5000, c)],
       nextTimer := Suc (nextTimer s),
       children := children s @ [nextTimer s]\<rparr>"

text \<open>
  \<open>renderVerse\<close>. The first component of the result is what the promise it returns
  rejects with, \<open>None\<close> when it resolves.
\<close>

definition renderVerse :: "remote \<Rightarrow> QuranSettings \<Rightarrow> nat \<Rightarrow> view \<Rightarrow> error option \<times> view" where
  "renderVerse r settings k s =
     (let s0 = s\<lparr>container := Suc (container s),
                 content := [Header, SkeletonArabic, SkeletonDivider, SkeletonEnglish, SkeletonMeta]\<rparr>;
          c = container s0
      in case tryBody r settings k s0 of
           (None, s1) \<Rightarrow> (None, s1)
         | (Some err, s1) \<Rightarrow> (None, catchBlock c s1))"

text \<open>\<open>container.isConnected\<close> for the container an attempt created.\<close>

definition isConnected :: "nat \<Rightarrow> view \<Rightarrow> bool" where
  "isConnected c s \<longleftrightarrow> attached s \<and> container s = c"

text \<open>The timer callback: \<open>if (container.isConnected) void renderVerse()\<close>.\<close>

definition retry :: "remote \<Rightarrow> QuranSettings \<Rightarrow> nat \<Rightarrow> nat \<Rightarrow> view \<Rightarrow> view" where
  "retry r settings k c s = (if isConnected c s then snd (renderVerse r settings k s) else s)"

text \<open>A pending timer fires once; an id that is not pending (cleared, or fired) does nothing.\<close>

definition fire :: "remote \<Rightarrow> QuranSettings \<Rightarrow> nat \<Rightarrow> nat \<Rightarrow> view \<Rightarrow> view" where
  "fire r settings k tid s =
     (case find (\<lambda>t. fst t = tid) (timers s) of
        None \<Rightarrow> s
      | Some t \<Rightarrow> retry r settings k (snd (snd t)) (s\<lparr>timers := filter (\<lambda>t. fst t \<noteq> tid) (timers s)\<rparr>))"

text \<open>
  Teardown of the rendering surface by the host: the children added to \<open>ctx\<close> are
  unloaded, which runs each \<open>onunload\<close> (\<open>window.clearTimeout(timeoutId)\<close>), and \<open>el\<close>
  leaves the document.
\<close>

definition unloadChildren :: "view \<Rightarrow> view" where
  "unloadChildren s =
     s\<lparr>timers := filter (\<lambda>t. fst t \<notin> set (children s)) (timers s), children := []\<rparr>"

definition detach :: "view \<Rightarrow> view" where
  "detach s = s\<lparr>attached := False\<rparr>"

definition teardown :: "view \<Rightarrow> view" where
  "teardown s = detach (unloadChildren s)"

text \<open>
  What happens to one surface: the processor or the reload button calls \<open>renderVerse\<close>,
  a timer comes due, the host tears the surface down. Each event that renders carries
  the settings and the random draw of that moment.
\<close>

datatype event = Render QuranSettings nat | Fire nat QuranSettings nat | Teardown

fun step :: "remote \<Rightarrow> view \<Rightarrow> event \<Rightarrow> view" where
  "step r s (Render settings k) = snd (renderVerse r settings k s)"
| "step r s (Fire tid settings k) = fire r settings k tid s"
| "step r s Teardown = teardown s"

definition run :: "remote \<Rightarrow> event list \<Rightarrow> view \<Rightarrow> view" where
  "run r evs s = foldl (step r) s evs"

text \<open>The timers that come due after a teardown, each with the settings and draw it would use.\<close>

definition fires :: "(nat \<times> QuranSettings \<times> nat) list \<Rightarrow> event list" where
  "fires fs = map (\<lambda>f. Fire (fst f) (fst (snd f)) (snd (snd f))) fs"

text \<open>A remote call counts as successful when it resolves with logical code 200.\<close>

definition succeeded :: "ApiResponse http \<Rightarrow> bool" where
  "succeeded h = (case h of Rejects \<Rightarrow> False | Resolves j \<Rightarrow> code j = 200)"


section \<open>settings.ts: the metadata resolver\<close>

text \<open>
  \<open>Edition\<close> (its \<open>identifier\<close>, \<open>language\<close> and \<open>type\<close> fields carry a prefix), the entries
  \<open>{ code, name }\<close> of the two language lists, and \<open>CdnTafsirEdition\<close> (its \<open>id\<close> and
  \<open>name\<close> fields carry a prefix).
\<close>

record Edition =
  e_identifier :: jsstring
  e_language :: jsstring
  name :: jsstring
  englishName :: jsstring
  format :: jsstring
  e_type :: jsstring
  direction :: "jsstring option"

record LanguageEntry =
  l_code :: jsstring
  l_name :: jsstring

record CdnTafsirEdition =
  author_name :: jsstring
  t_id :: int
  language_name :: jsstring
  t_name :: jsstring
  slug :: jsstring
  source :: jsstring

text \<open>
  What the host's JavaScript engine supplies and the source only calls: the two case
  mappings, the collation order of \<open>localeCompare\<close>, whether \<open>Intl.DisplayNames\<close> is a
  function, and what \<open>new Intl.DisplayNames(['en'], { type: 'language' }).of(code)\<close>
  does (it throws, returns \<open>undefined\<close>, or returns a name).
\<close>

datatype intl = Throws | Undefined | Name jsstring

record host =
  toLowerCase :: "jsstring \<Rightarrow> jsstring"
  toUpperCase :: "jsstring \<Rightarrow> jsstring"
  localeCompare :: "jsstring \<Rightarrow> jsstring \<Rightarrow> int"
  hasDisplayNames :: bool
  displayNameOf :: "jsstring \<Rightarrow> intl"

text \<open>Truthiness of a string-or-undefined, and \<open>a || b\<close> on it.\<close>

definition truthy :: "jsstring option \<Rightarrow> bool" where
  "truthy a = (case a of None \<Rightarrow> False | Some v \<Rightarrow> v \<noteq> [])"

definition orElse :: "jsstring option \<Rightarrow> jsstring \<Rightarrow> jsstring" where
  "orElse a b = (case a of None \<Rightarrow> b | Some v \<Rightarrow> if v = [] then b else v)"

text \<open>
  \<open>Array.from(new Set(xs))\<close>: the distinct elements in the order of their first
  occurrence.
\<close>

definition uniq :: "'a list \<Rightarrow> 'a list" where
  "uniq xs = rev (remdups (rev xs))"

text \<open>
  \<open>xs.sort((a, b) => a.name.localeCompare(b.name))\<close>. The engine's sort is stable; a
  stable insertion sort gives its result whenever the comparator is a total preorder, as
  a collation order is.
\<close>

fun insertByName :: "host \<Rightarrow> LanguageEntry \<Rightarrow> LanguageEntry list \<Rightarrow> LanguageEntry list" where
  "insertByName h x [] = [x]"
| "insertByName h x (y # ys) =
     (if localeCompare h (l_name x) (l_name y) \<le> 0 then x # y # ys
      else y # insertByName h x ys)"

definition sortByName :: "host \<Rightarrow> LanguageEntry list \<Rightarrow> LanguageEntry list" where
  "sortByName h xs = foldr (insertByName h) xs []"

text \<open>
  The settings tab with the plugin it points to: \<open>this.plugin.settings\<close>, every
  snapshot handed to \<open>saveData\<close> (oldest first), the four catalogs, the busy flag, the
  notices shown to the user, the URLs requested and the number of \<open>display()\<close> calls.
\<close>

record tab =
  plugin_settings :: QuranSettings
  saved :: "QuranSettings list"
  languages :: "LanguageEntry list"
  tafsirLanguages :: "LanguageEntry list"
  editions :: "Edition list"
  tafsirEditions :: "Edition list"
  isLoadingMetadata :: bool
  notices :: "string list"
  calls :: "jsstring list"
  displays :: nat

text \<open>
  One answer of a catalog service: the request rejects, or it resolves with JSON that
  the type guard refuses, or with JSON of the guarded type.
\<close>

datatype 'a guarded = Unreachable | IllTyped | WellTyped 'a

record catalogs =
  languageRes :: "jsstring list Response guarded"
  editionRes :: "jsstring \<Rightarrow> Edition list Response guarded"
  tafsirRes :: "CdnTafsirEdition list guarded"

definition DEFAULT_SETTINGS :: QuranSettings where
  "DEFAULT_SETTINGS =
     \<lparr>translation = js ''en.itani'', language = js ''en'', fontSize = js ''2.0rem'',
      backgroundColor = js ''var(--background-secondary)'',
      accentColor = js ''var(--interactive-accent)'',
      tafsir = js ''en-tafisr-ibn-kathir'',
      tafsirName = js ''Tafsir Ibn Kathir (Abridged)'',
      tafsirLanguage = js ''en'', font = js ''\"Noto Naskh Arabic\"''\<rparr>"

text \<open>\<open>saveSettings\<close>; \<open>applyGlobalStyles\<close> writes style properties only.\<close>

definition saveSettings :: "tab \<Rightarrow> tab" where
  "saveSettings s = s\<lparr>saved := saved s @ [plugin_settings s]\<rparr>"

definition notify :: "string \<Rightarrow> tab \<Rightarrow> tab" where
  "notify msg s = s\<lparr>notices := notices s @ [msg]\<rparr>"

definition request :: "jsstring \<Rightarrow> tab \<Rightarrow> tab" where
  "request url s = s\<lparr>calls := calls s @ [url]\<rparr>"

text \<open>
  \<open>getFullLanguageName\<close>. The override table is declared \<open>Record<string, string>\<close> and
  read by key; its two values are non-empty strings. The embedding follows the declared
  type: a read gives one of the two names or nothing. For a key that the object literal
  inherits from \<open>Object.prototype\<close> (\<open>constructor\<close>, \<open>__proto__\<close>, ...) the source reads a
  value that is not a string; such keys are neither language codes nor language names
  of the catalogs and are left out.
\<close>

definition customNames :: "jsstring \<Rightarrow> jsstring option" where
  "customNames k =
     (if k = js ''ber'' then Some (js ''Berber'')
      else if k = js ''ce'' then Some (js ''Chechen'')
      else None)"

definition getFullLanguageName :: "host \<Rightarrow> jsstring \<Rightarrow> jsstring" where
  "getFullLanguageName h c =
     (if truthy (customNames (toLowerCase h c)) then orElse (customNames (toLowerCase h c)) []
      else if hasDisplayNames h then
        (case displayNameOf h c of
           Throws \<Rightarrow> c
         | Undefined \<Rightarrow> c
         | Name n \<Rightarrow> orElse (Some n) c)
      else c)"

text \<open>
  The first revision of \<open>getFullLanguageName\<close> (the one without tafsir settings): a
  larger override table read by the code as given, no test that \<open>Intl.DisplayNames\<close>
  exists (constructing it then throws), and the upper-cased code as the fallback.
\<close>

definition manualMap :: "jsstring \<Rightarrow> jsstring option" where
  "manualMap =
     map_of
       [(js ''ar'', js ''Arabic''), (js ''az'', js ''Azerbaijani''), (js ''ba'', js ''Bashkir''),
        (js ''be'', js ''Bengali''), (js ''ber'', js ''Berber''), (js ''bs'', js ''Bosnian''),
        (js ''ce'', js ''Chechen''), (js ''dv'', js ''Divehi''), (js ''fa'', js ''Persian''),
        (js ''ha'', js ''Hausa''), (js ''ml'', js ''Malayalam''), (js ''ps'', js ''Pashto''),
        (js ''sd'', js ''Sindhi''), (js ''si'', js ''Sinhala''), (js ''sq'', js ''Albanian''),
        (js ''sw'', js ''Swahili''), (js ''tg'', js ''Tajik''), (js ''tt'', js ''Tatar''),
        (js ''ug'', js ''Uyghur''), (js ''ur'', js ''Urdu''), (js ''uz'', js ''Uzbek'')]"

definition getFullLanguageName_rev1 :: "host \<Rightarrow> jsstring \<Rightarrow> jsstring" where
  "getFullLanguageName_rev1 h c =
     (if truthy (manualMap c) then orElse (manualMap c) []
      else if hasDisplayNames h then
        (case displayNameOf h c of
           Throws \<Rightarrow> toUpperCase h c
         | Undefined \<Rightarrow> toUpperCase h c
         | Name n \<Rightarrow> orElse (Some n) (toUpperCase h c))
      else toUpperCase h c)"

definition languagesUrl :: jsstring where
  "languagesUrl = js ''https://api.alquran.cloud/v1/edition/language''"

definition translationEditionUrl :: "jsstring \<Rightarrow> jsstring" where
  "translationEditionUrl lang = js ''https://api.alquran.cloud/v1/edition/language/'' @ lang"

definition tafsirApiUrl :: jsstring where
  "tafsirApiUrl = js ''https://cdn.jsdelivr.net/gh/spa5k/tafsir_api@main/tafsir/editions.json''"

text \<open>Lines 809 to 813: one entry per fetched code, sorted by name.\<close>

definition languageEntries :: "host \<Rightarrow> jsstring list \<Rightarrow> LanguageEntry list" where
  "languageEntries h codes =
     sortByName h (map (\<lambda>lang. \<lparr>l_code = lang, l_name = getFullLanguageName h lang\<rparr>) codes)"

definition fetchLanguages :: "host \<Rightarrow> catalogs \<Rightarrow> tab \<Rightarrow> error option \<times> tab" where
  "fetchLanguages h r s =
     (let s1 = request languagesUrl s
      in case languageRes r of
           Unreachable \<Rightarrow>
             (Some Rejection,
              notify ''Failed to fetch languages. Check your internet connection.'' s1)
         | IllTyped \<Rightarrow>
             (Some (Error ''Invalid language response structure''),
              notify ''Failed to fetch languages. Check your internet connection.'' s1)
         | WellTyped langJson \<Rightarrow>
             (None, s1\<lparr>languages := languageEntries h (data langJson)\<rparr>))"

definition fetchTranslationEditions :: "catalogs \<Rightarrow> tab \<Rightarrow> error option \<times> tab" where
  "fetchTranslationEditions r s =
     (let url = translationEditionUrl (language (plugin_settings s));
          s1 = request url s
      in case editionRes r url of
           Unreachable \<Rightarrow>
             (Some Rejection,
              notify ''Failed to fetch translations. Check your internet connection.'' s1)
         | IllTyped \<Rightarrow>
             (Some (Error ''Invalid translation edition response structure''),
              notify ''Failed to fetch translations. Check your internet connection.'' s1)
         | WellTyped trJson \<Rightarrow>
             (None,
              s1\<lparr>editions :=
                   filter (\<lambda>e. format e = js ''text'' \<and> e_type e = js ''translation'')
                     (data trJson)\<rparr>))"

text \<open>Lines 853 to 857: the tafsir languages present in the fetched catalog, sorted by name.\<close>

definition deriveTafsirLanguages ::
  "host \<Rightarrow> LanguageEntry list \<Rightarrow> CdnTafsirEdition list \<Rightarrow> LanguageEntry list" where
  "deriveTafsirLanguages h langs tafsirJson =
     sortByName h
       (map (\<lambda>langName.
               \<lparr>l_code =
                  orElse (map_option l_code
                            (find (\<lambda>l. toLowerCase h (l_name l) = toLowerCase h langName) langs))
                         (toLowerCase h langName),
                l_name = toUpperCase h (take 1 langName) @ drop 1 langName\<rparr>)
          (uniq (map language_name tafsirJson)))"

text \<open>Lines 860 to 864: the configured tafsir language is kept if listed, else replaced and saved.\<close>

definition reconcileTafsirLanguage :: "tab \<Rightarrow> tab" where
  "reconcileTafsirLanguage s =
     (let currentTafsirLangCode = tafsirLanguage (plugin_settings s)
      in if \<not> list_ex (\<lambda>l. l_code l = currentTafsirLangCode) (tafsirLanguages s)
         then saveSettings
                (s\<lparr>plugin_settings := (plugin_settings s)
                     \<lparr>tafsirLanguage :=
                        (case tafsirLanguages s of [] \<Rightarrow> js ''en'' | l # _ \<Rightarrow> l_code l)\<rparr>\<rparr>)
         else s)"

text \<open>Lines 867 to 877: the catalog entries whose language name is that of the configured code.\<close>

definition tafsirsFor :: "host \<Rightarrow> jsstring \<Rightarrow> CdnTafsirEdition list \<Rightarrow> Edition list" where
  "tafsirsFor h lang tafsirJson =
     map (\<lambda>t. \<lparr>e_identifier = slug t, e_language = language_name t, name = t_name t,
               englishName = author_name t, format = js ''text'', e_type = js ''tafsir'',
               direction = None\<rparr>)
       (filter (\<lambda>t. toLowerCase h (language_name t) =
                     toLowerCase h (getFullLanguageName h lang))
          tafsirJson)"

definition filterTafsirs :: "host \<Rightarrow> CdnTafsirEdition list \<Rightarrow> tab \<Rightarrow> tab" where
  "filterTafsirs h tafsirJson s =
     s\<lparr>tafsirEditions := tafsirsFor h (tafsirLanguage (plugin_settings s)) tafsirJson\<rparr>"

text \<open>Lines 880 to 892.\<close>

definition setDefaultTafsir :: "tab \<Rightarrow> tab" where
  "setDefaultTafsir s =
     (let ps = plugin_settings s
      in case tafsirEditions s of
           [] \<Rightarrow> saveSettings (s\<lparr>plugin_settings := ps\<lparr>tafsir := [], tafsirName := []\<rparr>\<rparr>)
         | e # _ \<Rightarrow>
             if tafsir ps = [] \<or> \<not> list_ex (\<lambda>t. e_identifier t = tafsir ps) (tafsirEditions s)
             then saveSettings
                    (s\<lparr>plugin_settings := ps\<lparr>tafsir := e_identifier e, tafsirName := name e\<rparr>\<rparr>)
             else s\<lparr>plugin_settings := ps
                     \<lparr>tafsirName :=
                        orElse (map_option name
                                  (find (\<lambda>t. e_identifier t = tafsir ps) (tafsirEditions s)))
                               (tafsir ps)\<rparr>\<rparr>)"

definition fetchAndProcessTafsirs :: "host \<Rightarrow> catalogs \<Rightarrow> tab \<Rightarrow> error option \<times> tab" where
  "fetchAndProcessTafsirs h r s =
     (let s1 = request tafsirApiUrl s
      in case tafsirRes r of
           Unreachable \<Rightarrow>
             (Some Rejection,
              notify ''Failed to fetch tafsir editions. Check your internet connection.'' s1)
         | IllTyped \<Rightarrow>
             (Some (Error ''Invalid Tafsir edition response structure''),
              notify ''Failed to fetch tafsir editions. Check your internet connection.'' s1)
         | WellTyped tafsirJson \<Rightarrow>
             (None,
              setDefaultTafsir
                (filterTafsirs h tafsirJson
                   (reconcileTafsirLanguage
                      (s1\<lparr>tafsirLanguages :=
                            deriveTafsirLanguages h (languages s1) tafsirJson\<rparr>)))))"

text \<open>
  \<open>display()\<close>, as far as it writes state: the tafsir edition dropdown (lines 1122 to
  1151) repairs the configured tafsir while it is built. \<open>options\<close> is filled in list
  order, so a later edition with the same identifier overwrites an earlier one.
\<close>

text \<open>
  \<open>options\<close> is a plain object, so a read finds an own property, or one inherited from
  \<open>Object.prototype\<close> (a function, truthy), or nothing. An assignment makes an own
  property, except for the key \<open>__proto__\<close>, whose setter ignores a string: that key
  always reads the prototype object.
\<close>

datatype slot = Missing | Inherited | Own jsstring

definition prototypeKeys :: "jsstring list" where
  "prototypeKeys =
     [js ''constructor'', js ''__defineGetter__'', js ''__defineSetter__'', js ''hasOwnProperty'',
      js ''__lookupGetter__'', js ''__lookupSetter__'', js ''isPrototypeOf'',
      js ''propertyIsEnumerable'', js ''toString'', js ''valueOf'', js ''__proto__'',
      js ''toLocaleString'']"

definition options :: "Edition list \<Rightarrow> jsstring \<Rightarrow> slot" where
  "options eds k =
     (if k = js ''__proto__'' then Inherited
      else case find (\<lambda>e. e_identifier e = k) (rev eds) of
             Some e \<Rightarrow> Own (name e)
           | None \<Rightarrow> if k \<in> set prototypeKeys then Inherited else Missing)"

definition slotTruthy :: "slot \<Rightarrow> bool" where
  "slotTruthy v = (case v of Missing \<Rightarrow> False | Inherited \<Rightarrow> True | Own n \<Rightarrow> n \<noteq> [])"

definition display :: "tab \<Rightarrow> tab" where
  "display s =
     (let s0 = s\<lparr>displays := Suc (displays s)\<rparr>;
          ps = plugin_settings s0
      in case tafsirEditions s0 of
           [] \<Rightarrow>
             if tafsir ps \<noteq> []
             then saveSettings (s0\<lparr>plugin_settings := ps\<lparr>tafsir := [], tafsirName := []\<rparr>\<rparr>)
             else s0
         | e # _ \<Rightarrow>
             if tafsir ps = [] \<or> \<not> slotTruthy (options (tafsirEditions s0) (tafsir ps))
             then saveSettings
                    (s0\<lparr>plugin_settings := ps\<lparr>tafsir := e_identifier e, tafsirName := name e\<rparr>\<rparr>)
             else s0)"

text \<open>The three awaited calls inside the \<open>try\<close> of \<open>fetchMetadata\<close>: the first throw ends them.\<close>

definition fetchAll :: "host \<Rightarrow> catalogs \<Rightarrow> tab \<Rightarrow> error option \<times> tab" where
  "fetchAll h r s =
     (case fetchLanguages h r s of
        (Some e, s1) \<Rightarrow> (Some e, s1)
      | (None, s1) \<Rightarrow>
          (case fetchTranslationEditions r s1 of
             (Some e, s2) \<Rightarrow> (Some e, s2)
           | (None, s2) \<Rightarrow> fetchAndProcessTafsirs h r s2))"

text \<open>
  \<open>fetchMetadata\<close>. The first component of the result is what the returned promise
  rejects with, \<open>None\<close> when it resolves.
\<close>

definition fetchMetadata :: "host \<Rightarrow> catalogs \<Rightarrow> tab \<Rightarrow> error option \<times> tab" where
  "fetchMetadata h r s =
     (if isLoadingMetadata s then (None, s)
      else
        let s0 = s\<lparr>isLoadingMetadata := True\<rparr>;
            s2 = (case fetchAll h r s0 of
                    (None, s1) \<Rightarrow> s1
                  | (Some e, s1) \<Rightarrow>
                      notify ''An unexpected error occurred. Please check the console for details.'' s1);
            s3 = s2\<lparr>isLoadingMetadata := False\<rparr>
        in (None, display s3))"

text \<open>The state at the first \<open>await\<close> of a refresh that found the busy flag clear.\<close>

definition inFlight :: "tab \<Rightarrow> tab" where
  "inFlight s = request languagesUrl (s\<lparr>isLoadingMetadata := True\<rparr>)"

text \<open>The \<open>onChange\<close> handler of the translation language dropdown (lines 1050 to 1066).\<close>

definition onLanguageChange :: "catalogs \<Rightarrow> jsstring \<Rightarrow> tab \<Rightarrow> error option \<times> tab" where
  "onLanguageChange r val s =
     (let s0 = s\<lparr>plugin_settings := (plugin_settings s)\<lparr>language := val\<rparr>, editions := []\<rparr>;
          s2 = (case fetchTranslationEditions r s0 of
                  (None, s1) \<Rightarrow>
                    (case editions s1 of
                       [] \<Rightarrow> s1
                     | e # _ \<Rightarrow>
                         s1\<lparr>plugin_settings := (plugin_settings s1)\<lparr>translation := e_identifier e\<rparr>\<rparr>)
                | (Some err, s1) \<Rightarrow>
                    notify ''Failed to auto-select translation. Check your internet connection.'' s1)
      in (None, display (saveSettings s2)))"

text \<open>The \<open>onChange\<close> handler of the tafsir language dropdown (lines 1107 to 1112).\<close>

definition onTafsirLanguageChange ::
  "host \<Rightarrow> catalogs \<Rightarrow> jsstring \<Rightarrow> tab \<Rightarrow> error option \<times> tab" where
  "onTafsirLanguageChange h r val s =
     (let s0 = saveSettings (s\<lparr>plugin_settings := (plugin_settings s)\<lparr>tafsirLanguage := val\<rparr>\<rparr>)
      in case fetchAndProcessTafsirs h r s0 of
           (Some e, s1) \<Rightarrow> (Some e, s1)
         | (None, s1) \<Rightarrow> (None, display s1))"


text \<open>The tab as its constructor leaves it, for a plugin with the given settings.\<close>

definition newTab :: "QuranSettings \<Rightarrow> tab" where
  "newTab ps =
     \<lparr>plugin_settings = ps, saved = [], languages = [], tafsirLanguages = [], editions = [],
      tafsirEditions = [], isLoadingMetadata = False, notices = [], calls = [], displays = 0\<rparr>"

section \<open>Properties of attempts and surfaces\<close>

text \<open>All three remote calls of one \<open>renderVerse\<close> attempt resolve with logical code 200.\<close>

definition allSucceeded :: "remote \<Rightarrow> QuranSettings \<Rightarrow> nat \<Rightarrow> view \<Rightarrow> bool" where
  "allSucceeded r settings k s =
     (let n = length (requests s)
      in case r n (ayahUrl (int k + 1)) of
           Rejects \<Rightarrow> False
         | Resolves j \<Rightarrow>
             code j = 200
             \<and> succeeded (r (n + 1) (editionUrl (number (data j)) (js ''quran-uthmani'')))
             \<and> succeeded (r (n + 2) (editionUrl (number (data j)) (translation settings))))"

text \<open>
  The tafsir language code that the reconciliation step leaves configured: the current
  one when it is among the derived languages, else the code of the first of them, else
  \<open>en\<close>.
\<close>

definition reconciledCode :: "LanguageEntry list \<Rightarrow> jsstring \<Rightarrow> jsstring" where
  "reconciledCode ls cur =
     (if list_ex (\<lambda>l. l_code l = cur) ls then cur
      else case ls of [] \<Rightarrow> js ''en'' | l # _ \<Rightarrow> l_code l)"

text \<open>The configured tafsir id is empty or is no identifier of the catalog.\<close>

definition unlisted :: "jsstring \<Rightarrow> Edition list \<Rightarrow> bool" where
  "unlisted t eds \<longleftrightarrow> t = [] \<or> \<not> list_ex (\<lambda>e. e_identifier e = t) eds"

text \<open>Every pending timer has a cleanup child on \<open>ctx\<close> that clears it.\<close>

definition covered :: "view \<Rightarrow> bool" where
  "covered s \<longleftrightarrow> list_all (\<lambda>t. fst t \<in> set (children s)) (timers s)"

section \<open>Concrete inputs\<close>

text \<open>
  A host whose case mappings act on ASCII letters, whose collation is the order of code
  units, and whose \<open>Intl.DisplayNames\<close> knows three codes and throws a RangeError on
  anything else.
\<close>

definition asciiLower :: "jsstring \<Rightarrow> jsstring" where
  "asciiLower s = map (\<lambda>c. if 0x41 \<le> c \<and> c \<le> 0x5A then c + 0x20 else c) s"

definition asciiUpper :: "jsstring \<Rightarrow> jsstring" where
  "asciiUpper s = map (\<lambda>c. if 0x61 \<le> c \<and> c \<le> 0x7A then c - 0x20 else c) s"

fun unitCompare :: "jsstring \<Rightarrow> jsstring \<Rightarrow> int" where
  "unitCompare [] [] = 0"
| "unitCompare [] (y # ys) = - 1"
| "unitCompare (x # xs) [] = 1"
| "unitCompare (x # xs) (y # ys) =
     (if x < y then - 1 else if y < x then 1 else unitCompare xs ys)"

definition exampleHost :: host where
  "exampleHost =
     \<lparr>toLowerCase = asciiLower, toUpperCase = asciiUpper, localeCompare = unitCompare,
      hasDisplayNames = True,
      displayNameOf = (\<lambda>c. if c = js ''en'' then Name (js ''English'')
                            else if c = js ''fr'' then Name (js ''French'')
                            else if c = js ''ur'' then Name (js ''Urdu'')
                            else Throws)\<rparr>"

definition itani :: Edition where
  "itani = \<lparr>e_identifier = js ''en.itani'', e_language = js ''en'', name = js ''Clear Quran'',
            englishName = js ''Talal Itani'', format = js ''text'', e_type = js ''translation'',
            direction = Some (js ''ltr'')\<rparr>"

definition hamidullah :: Edition where
  "hamidullah = \<lparr>e_identifier = js ''fr.hamidullah'', e_language = js ''fr'', name = js ''Hamidullah'',
            englishName = js ''Muhammad Hamidullah'', format = js ''text'', e_type = js ''translation'',
            direction = Some (js ''ltr'')\<rparr>"

definition kathir :: CdnTafsirEdition where
  "kathir = \<lparr>author_name = js ''Hafiz Ibn Kathir'', t_id = 169, language_name = js ''english'',
             t_name = js ''Tafsir Ibn Kathir (abridged)'', slug = js ''en-tafisr-ibn-kathir'',
             source = js ''quran.com''\<rparr>"

definition bayan :: CdnTafsirEdition where
  "bayan = \<lparr>author_name = js ''Maulana Ashraf Ali Thanwi'', t_id = 160, language_name = js ''urdu'',
            t_name = js ''Bayan ul Quran'', slug = js ''ur-tafsir-bayan-ul-quran'',
            source = js ''quran.com''\<rparr>"

definition maarif :: CdnTafsirEdition where
  "maarif = \<lparr>author_name = js ''Mufti Muhammad Shafi'', t_id = 168, language_name = js ''english'',
             t_name = js ''Maarif-ul-Quran'', slug = js ''en-tafsir-maarif-ul-quran'',
             source = js ''quran.com''\<rparr>"

definition ahsanul :: CdnTafsirEdition where
  "ahsanul = \<lparr>author_name = js ''Bayaan Foundation'', t_id = 165, language_name = js ''bengali'',
              t_name = js ''Tafsir Ahsanul Bayaan'', slug = js ''bn-tafsir-ahsanul-bayaan'',
              source = js ''quran.com''\<rparr>"

text \<open>Catalog services that answer with two languages, one English translation and the given tafsirs.\<close>

definition exampleCatalogs :: "CdnTafsirEdition list \<Rightarrow> catalogs" where
  "exampleCatalogs ts =
     \<lparr>languageRes = WellTyped \<lparr>code = 200, status = js ''OK'', data = [js ''fr'', js ''en'']\<rparr>,
      editionRes = (\<lambda>url. if url = translationEditionUrl (js ''en'')
                           then WellTyped \<lparr>code = 200, status = js ''OK'', data = [itani]\<rparr>
                           else if url = translationEditionUrl (js ''fr'')
                           then WellTyped \<lparr>code = 200, status = js ''OK'', data = [hamidullah]\<rparr>
                           else WellTyped \<lparr>code = 200, status = js ''OK'', data = []\<rparr>),
      tafsirRes = WellTyped ts\<rparr>"

text \<open>
  Catalog services that list English, French and Urdu, and have a textual translation
  for English and French but only a recitation for Urdu.
\<close>

definition urduAudio :: Edition where
  "urduAudio = \<lparr>e_identifier = js ''ur.khan'', e_language = js ''ur'', name = js ''Shamshad Ali Khan'',
            englishName = js ''Shamshad Ali Khan'', format = js ''audio'', e_type = js ''versebyverse'',
            direction = None\<rparr>"

definition sparseCatalogs :: catalogs where
  "sparseCatalogs =
     \<lparr>languageRes =
        WellTyped \<lparr>code = 200, status = js ''OK'', data = [js ''en'', js ''fr'', js ''ur'']\<rparr>,
      editionRes = (\<lambda>url. if url = translationEditionUrl (js ''en'')
                           then WellTyped \<lparr>code = 200, status = js ''OK'', data = [itani]\<rparr>
                           else if url = translationEditionUrl (js ''fr'')
                           then WellTyped \<lparr>code = 200, status = js ''OK'', data = [hamidullah]\<rparr>
                           else WellTyped \<lparr>code = 200, status = js ''OK'', data = [urduAudio]\<rparr>),
      tafsirRes = WellTyped [kathir]\<rparr>"

text \<open>Catalog services that are down.\<close>

definition offline :: catalogs where
  "offline = \<lparr>languageRes = Unreachable, editionRes = (\<lambda>url. Unreachable), tafsirRes = Unreachable\<rparr>"

text \<open>A verse service that is down, and one that renumbers every reference to 777.\<close>

definition failing :: remote where
  "failing = (\<lambda>n url. Rejects)"

definition verse777 :: AyahData where
  "verse777 =
     \<lparr>number = 777, text' = [0x628], numberInSurah = 5,
      surah = \<lparr>surah_number = 6, surah_name = [0x623], surah_englishName = js ''Al-Anaam''\<rparr>,
      edition = \<lparr>edition_identifier = js ''quran-uthmani'', edition_language = js ''ar'',
                 edition_name = js ''Uthmani'', edition_direction = Some (js ''rtl'')\<rparr>\<rparr>"

definition renumbering :: remote where
  "renumbering = (\<lambda>n url. Resolves \<lparr>code = 200, status = js ''OK'', data = verse777\<rparr>)"

text \<open>A verse service whose third answer of a run carries logical code 404.\<close>

definition translationMissing :: remote where
  "translationMissing =
     (\<lambda>n url. Resolves \<lparr>code = (if n = 2 then 404 else 200), status = js ''OK'', data = verse777\<rparr>)"

section \<open>Decimal digits and strings\<close>

lemma less_10_cases: "(d::nat) < 10 \<Longrightarrow> d \<in> {0, 1, 2, 3, 4, 5, 6, 7, 8, 9}"
  by auto

lemma digit_char_is_digit: "d < 10 \<Longrightarrow> is_digit (digit_char d)"
  by (drule less_10_cases) (auto simp: is_digit_def digit_char_def)

lemma arabicDigit_digit_char: "d < 10 \<Longrightarrow> arabicDigit [digit_char d] = [digits ! d]"
  by (drule less_10_cases)
     (auto simp: arabicDigit_def parseInt_def str_index_def nullish_def is_digit_def
        digit_char_def digits_def)

lemma unat_digit_char: "d < 10 \<Longrightarrow> unat (digit_char d) = 48 + d"
  by (drule less_10_cases) (auto simp: digit_char_def)

lemma digit_char_inj:
  assumes "a < 10" and "b < 10" and "digit_char a = digit_char b"
  shows "a = b"
proof -
  have "unat (digit_char a) = unat (digit_char b)" using assms(3) by (rule arg_cong)
  then have "48 + a = 48 + b" using assms(1,2) by (simp only: unat_digit_char)
  then show ?thesis by simp
qed

lemma digit_char_not_minus: "d < 10 \<Longrightarrow> digit_char d \<noteq> 0x2D"
  using unat_digit_char [of d] by auto

lemma unat_js_unit: "unat (of_nat (of_char c) :: code_unit) = of_char c"
proof -
  have "(of_char c :: nat) < 256" by (rule nat_of_char_less_256)
  then have "(of_char c :: nat) mod 65536 = of_char c" by (intro mod_less) linarith
  then show ?thesis by (simp add: unat_of_nat)
qed

lemma js_eq_iff [simp]: "js a = js b \<longleftrightarrow> a = b"
proof -
  have "inj (\<lambda>c. of_nat (of_char c) :: code_unit)"
  proof (rule injI)
    fix x y :: char
    assume "(of_nat (of_char x) :: code_unit) = of_nat (of_char y)"
    then have "unat (of_nat (of_char x) :: code_unit) = unat (of_nat (of_char y) :: code_unit)"
      by simp
    then have "(of_char x :: nat) = of_char y" by (simp only: unat_js_unit)
    then show "x = y" by simp
  qed
  then show ?thesis unfolding js_def by (simp add: inj_map_eq_map)
qed

lemma dec_digits_lt: "d \<in> set (dec_digits n) \<Longrightarrow> d < 10"
  by (induction n arbitrary: d rule: dec_digits.induct)
     (subst (asm) dec_digits.simps, auto split: if_splits)

lemma dec_digits_value: "foldl (\<lambda>a d. 10 * a + d) 0 (dec_digits n) = n"
  by (induction n rule: dec_digits.induct) (subst dec_digits.simps, auto)

lemma dec_digits_nonempty: "dec_digits n \<noteq> []"
  by (subst dec_digits.simps) auto

lemma dec_digits_hd: "hd (dec_digits n) = 0 \<Longrightarrow> n = 0"
  by (induction n rule: dec_digits.induct)
     (subst (asm) dec_digits.simps, auto simp: dec_digits_nonempty split: if_splits)

lemma dec_digits_single: "d < 10 \<Longrightarrow> dec_digits d = [d]"
  by (subst dec_digits.simps) simp

lemma dec_digits_inj:
  assumes "dec_digits a = dec_digits b"
  shows "a = b"
proof -
  have "a = foldl (\<lambda>a d. 10 * a + d) 0 (dec_digits a)" by (simp only: dec_digits_value)
  also have "\<dots> = foldl (\<lambda>a d. 10 * a + d) 0 (dec_digits b)" by (simp only: assms)
  also have "\<dots> = b" by (simp only: dec_digits_value)
  finally show ?thesis .
qed

lemma map_digit_char_inj:
  "\<forall>d \<in> set xs. d < 10 \<Longrightarrow> \<forall>d \<in> set ys. d < 10 \<Longrightarrow>
   map digit_char xs = map digit_char ys \<Longrightarrow> xs = ys"
proof (induction xs arbitrary: ys)
  case Nil
  then show ?case by simp
next
  case (Cons x xs)
  then show ?case by (cases ys) (auto dest: digit_char_inj)
qed

lemma digits_of_inj: "map digit_char (dec_digits a) = map digit_char (dec_digits b) \<Longrightarrow> a = b"
  by (rule dec_digits_inj, rule map_digit_char_inj) (auto dest: dec_digits_lt)

lemma digits_of_not_minus: "map digit_char (dec_digits a) \<noteq> 0x2D # xs"
proof
  assume h: "map digit_char (dec_digits a) = 0x2D # xs"
  obtain d ds where e: "dec_digits a = d # ds"
    using dec_digits_nonempty [of a] by (cases "dec_digits a") auto
  then have "d < 10" using dec_digits_lt [of d a] by simp
  then show False using h e digit_char_not_minus [of d] by simp
qed

lemma toString_inj: "toString a = toString b \<Longrightarrow> a = b"
proof -
  assume h: "toString a = toString b"
  consider "a < 0" "b < 0" | "a < 0" "0 \<le> b" | "0 \<le> a" "b < 0" | "0 \<le> a" "0 \<le> b"
    by linarith
  then show ?thesis
  proof cases
    case 1
    then have "nat (- a) = nat (- b)" using h by (simp add: toString_def digits_of_inj)
    then show ?thesis using 1 by simp
  next
    case 2
    then show ?thesis
      using h [symmetric] digits_of_not_minus [of "nat b"] by (simp add: toString_def)
  next
    case 3
    then show ?thesis using h digits_of_not_minus [of "nat a"] by (simp add: toString_def)
  next
    case 4
    then have "nat a = nat b" using h by (simp add: toString_def digits_of_inj)
    then show ?thesis using 4 by simp
  qed
qed

lemma editionUrl_inj: "editionUrl a e = editionUrl b e \<Longrightarrow> a = b"
  by (simp add: editionUrl_def ayahUrl_def toString_inj)

section \<open>The digit transliteration\<close>

lemma replace_digits_map:
  "(\<forall>d \<in> set ds. d < 10) \<Longrightarrow>
   replace_digits arabicDigit (map digit_char ds) = map (\<lambda>d. digits ! d) ds"
  by (induction ds) (auto simp: replace_digits_def digit_char_is_digit arabicDigit_digit_char)

lemma toArabicDigits_nonneg:
  "0 \<le> n \<Longrightarrow> toArabicDigits n = map (\<lambda>d. digits ! d) (dec_digits (nat n))"
  by (simp add: toArabicDigits_def toString_def replace_digits_map dec_digits_lt)

lemma replace_digits_Cons_other:
  "\<not> is_digit c \<Longrightarrow> replace_digits f (c # s) = c # replace_digits f s"
  by (simp add: replace_digits_def)

lemma arabicDigit_no_glyph: "str_index digits (parseInt d) = None \<Longrightarrow> arabicDigit d = d"
  by (simp add: arabicDigit_def nullish_def)

lemma toArabicDigits_neg: "n < 0 \<Longrightarrow> toArabicDigits n = 0x2D # toArabicDigits (- n)"
  by (simp add: toArabicDigits_def toString_def replace_digits_def is_digit_def)

text \<open>
  C2. A number \<open>d\<close> from 0 to 9 is rendered as the one glyph at position \<open>d\<close> of the
  ten-glyph table. A non-negative safe integer is rendered glyph by glyph from its
  decimal digits, most significant first: the digits are below ten, they give the
  number back by Horner's rule, and there is no leading zero; 255 gives the glyphs at
  2, 5 and 5. A code unit of the decimal rendering that is not a digit is copied, a
  match for which the table has no glyph is returned as it is, and so the minus sign of
  a negative safe integer stays in front of the transliterated digits. No case raises.
\<close>

theorem toArabicDigits_spec:
  "(\<forall>d \<in> {0..9}. toArabicDigits d = [digits ! nat d])
   \<and> length digits = 10
   \<and> (\<forall>n. 0 \<le> n \<and> n \<le> MAX_SAFE_INTEGER \<longrightarrow>
          toArabicDigits n = map (\<lambda>d. digits ! d) (dec_digits (nat n))
        \<and> (\<forall>d \<in> set (dec_digits (nat n)). d < 10)
        \<and> foldl (\<lambda>a d. 10 * a + d) 0 (dec_digits (nat n)) = nat n
        \<and> dec_digits (nat n) \<noteq> []
        \<and> (hd (dec_digits (nat n)) = 0 \<longrightarrow> n = 0))
   \<and> toArabicDigits 255 = [digits ! 2, digits ! 5, digits ! 5]
   \<and> (\<forall>c s. \<not> is_digit c \<longrightarrow>
         replace_digits arabicDigit (c # s) = c # replace_digits arabicDigit s)
   \<and> (\<forall>d. str_index digits (parseInt d) = None \<longrightarrow> arabicDigit d = d)
   \<and> (\<forall>n. - MAX_SAFE_INTEGER \<le> n \<and> n < 0 \<longrightarrow> toArabicDigits n = 0x2D # toArabicDigits (- n))"
proof (intro conjI ballI allI impI)
  fix d :: int assume "d \<in> {0..9}"
  then have "0 \<le> d" "nat d < 10" by auto
  then show "toArabicDigits d = [digits ! nat d]"
    by (simp add: toArabicDigits_nonneg dec_digits_single)
next
  show "length digits = 10" by (simp add: digits_def)
next
  fix n :: int assume "0 \<le> n \<and> n \<le> MAX_SAFE_INTEGER"
  then show "toArabicDigits n = map (\<lambda>d. digits ! d) (dec_digits (nat n))"
    by (simp add: toArabicDigits_nonneg)
next
  fix n :: int and d assume "d \<in> set (dec_digits (nat n))"
  then show "d < 10" by (rule dec_digits_lt)
next
  fix n :: int
  show "foldl (\<lambda>a d. 10 * a + d) 0 (dec_digits (nat n)) = nat n" by (rule dec_digits_value)
next
  fix n :: int
  show "dec_digits (nat n) \<noteq> []" by (rule dec_digits_nonempty)
next
  fix n :: int assume "0 \<le> n \<and> n \<le> MAX_SAFE_INTEGER" "hd (dec_digits (nat n)) = 0"
  then show "n = 0" using dec_digits_hd [of "nat n"] by simp
next
  show "toArabicDigits 255 = [digits ! 2, digits ! 5, digits ! 5]" by code_simp
next
  fix c s assume "\<not> is_digit c"
  then show "replace_digits arabicDigit (c # s) = c # replace_digits arabicDigit s"
    by (rule replace_digits_Cons_other)
next
  fix d assume "str_index digits (parseInt d) = None"
  then show "arabicDigit d = d" by (rule arabicDigit_no_glyph)
next
  fix n :: int assume "- MAX_SAFE_INTEGER \<le> n \<and> n < 0"
  then show "toArabicDigits n = 0x2D # toArabicDigits (- n)" by (simp add: toArabicDigits_neg)
qed

theorem toArabicDigits_spec_witness:
  "toArabicDigits 0 = [0x660] \<and> toArabicDigits 9 = [0x669]
   \<and> toArabicDigits 114 = [0x661, 0x661, 0x664]
   \<and> toArabicDigits (- 3) = [0x2D, 0x663]
   \<and> replace_digits arabicDigit [0x2E, 0x35] = [0x2E, 0x665]"
proof -
  note spec = toArabicDigits_spec
  have one: "\<forall>d \<in> {0..9}. toArabicDigits d = [digits ! nat d]"
    using spec by (rule conjunct1)
  have many: "\<forall>n. 0 \<le> n \<and> n \<le> MAX_SAFE_INTEGER \<longrightarrow>
      toArabicDigits n = map (\<lambda>d. digits ! d) (dec_digits (nat n))"
    using spec by blast
  have other: "\<forall>c s. \<not> is_digit c \<longrightarrow>
      replace_digits arabicDigit (c # s) = c # replace_digits arabicDigit s"
    using spec by blast
  have neg: "\<forall>n. - MAX_SAFE_INTEGER \<le> n \<and> n < 0 \<longrightarrow>
      toArabicDigits n = 0x2D # toArabicDigits (- n)"
    using spec by blast
  have safe: "(0::int) \<le> 114 \<and> 114 \<le> MAX_SAFE_INTEGER"
    "- MAX_SAFE_INTEGER \<le> - 3 \<and> (- 3 :: int) < 0"
    by (simp_all add: MAX_SAFE_INTEGER_def)
  have in0: "(0::int) \<in> {0..9}" and in9: "(9::int) \<in> {0..9}" by simp_all
  have a: "toArabicDigits 0 = [0x660]"
    using one [rule_format, OF in0] by (simp add: digits_def)
  have b: "toArabicDigits 9 = [0x669]"
    using one [rule_format, OF in9] by (simp add: digits_def)
  have d114: "dec_digits 114 = [1, 1, 4]" by code_simp
  have c: "toArabicDigits 114 = [0x661, 0x661, 0x664]"
    using many [rule_format, OF safe(1)] by (simp add: d114 digits_def)
  have d: "toArabicDigits (- 3) = [0x2D, 0x663]"
    using neg [rule_format, OF safe(2)] one [rule_format, of 3] by (simp add: digits_def)
  have nd: "\<not> is_digit 0x2E" by (simp add: is_digit_def)
  have five: "replace_digits arabicDigit [0x35] = [0x665]" by code_simp
  have e: "replace_digits arabicDigit [0x2E, 0x35] = [0x2E, 0x665]"
    using other [rule_format, OF nd, of "[0x35]"] by (simp add: five)
  show ?thesis using a b c d e by simp
qed

section \<open>The verse card\<close>

text \<open>
  C1. When the reference lookup resolves with code 200, the attempt issues exactly three
  requests: the lookup for the random draw, then the original-language and the
  translation lookups, both built from the \<open>number\<close> field the lookup returned. When
  that number differs from the draw, neither of the two is the URL the draw would give.
\<close>

theorem renderVerse_uses_canonical_index:
  assumes "r (length (requests s)) (ayahUrl (int k + 1)) = Resolves j"
    and "code j = 200"
  shows "requests (snd (renderVerse r st k s)) =
           requests s @ [ayahUrl (int k + 1),
                         editionUrl (number (data j)) (js ''quran-uthmani''),
                         editionUrl (number (data j)) (translation st)]
       \<and> (number (data j) \<noteq> int k + 1 \<longrightarrow>
            editionUrl (number (data j)) (js ''quran-uthmani'')
              \<noteq> editionUrl (int k + 1) (js ''quran-uthmani'')
          \<and> editionUrl (number (data j)) (translation st)
              \<noteq> editionUrl (int k + 1) (translation st))"
proof -
  have "requests (snd (renderVerse r st k s)) =
           requests s @ [ayahUrl (int k + 1),
                         editionUrl (number (data j)) (js ''quran-uthmani''),
                         editionUrl (number (data j)) (translation st)]"
    using assms
    by (simp add: renderVerse_def tryBody_def requestUrl_def catchBlock_def renderCard_def Let_def
          split: http.splits)
  then show ?thesis by (auto dest: editionUrl_inj)
qed

theorem renderVerse_uses_canonical_index_witness:
  "requests (snd (renderVerse renumbering DEFAULT_SETTINGS 499 init)) =
     [ayahUrl 500, editionUrl 777 (js ''quran-uthmani''), editionUrl 777 (js ''en.itani'')]
   \<and> editionUrl 777 (js ''quran-uthmani'') \<noteq> editionUrl 500 (js ''quran-uthmani'')
   \<and> editionUrl 777 (js ''en.itani'') \<noteq> editionUrl 500 (js ''en.itani'')"
proof -
  have h1: "renumbering (length (requests init)) (ayahUrl (int 499 + 1)) =
              Resolves \<lparr>code = 200, status = js ''OK'', data = verse777\<rparr>"
    by (simp add: renumbering_def)
  have h2: "code \<lparr>code = 200, status = js ''OK'', data = verse777\<rparr> = 200" by simp
  show ?thesis
    using renderVerse_uses_canonical_index
            [where r = renumbering and s = init and k = 499 and st = DEFAULT_SETTINGS
               and j = "\<lparr>code = 200, status = js ''OK'', data = verse777\<rparr>"]
          h1 h2
    by (simp add: verse777_def DEFAULT_SETTINGS_def init_def)
qed

text \<open>
  C3. When one of the three calls of an attempt rejects or resolves with a code other
  than 200, \<open>renderVerse\<close> still resolves, the container holds the header and the four
  skeleton elements and nothing else, and exactly one timer is added, of 5000 ms, for
  this attempt's container, with one cleanup child that clears it. When all three
  calls succeed, no skeleton is left and no timer is added: the skeletons go only
  after the three codes have been checked.
\<close>

theorem renderVerse_failure_keeps_skeleton:
  "(\<not> allSucceeded r st k s \<longrightarrow>
      fst (renderVerse r st k s) = None
    \<and> content (snd (renderVerse r st k s)) =
        [Header, SkeletonArabic, SkeletonDivider, SkeletonEnglish, SkeletonMeta]
    \<and> container (snd (renderVerse r st k s)) = Suc (container s)
    \<and> timers (snd (renderVerse r st k s)) =
        timers s @ [(nextTimer s, 5000, Suc (container s))]
    \<and> children (snd (renderVerse r st k s)) = children s @ [nextTimer s])
   \<and> (allSucceeded r st k s \<longrightarrow>
      fst (renderVerse r st k s) = None
    \<and> list_all (\<lambda>n. \<not> isSkeleton n) (content (snd (renderVerse r st k s)))
    \<and> timers (snd (renderVerse r st k s)) = timers s)"
  by (auto simp: allSucceeded_def succeeded_def renderVerse_def tryBody_def requestUrl_def
        catchBlock_def renderCard_def isSkeleton_def Let_def split: http.splits)

theorem renderVerse_failure_keeps_skeleton_witness:
  "content (snd (renderVerse translationMissing DEFAULT_SETTINGS 499 init)) =
     [Header, SkeletonArabic, SkeletonDivider, SkeletonEnglish, SkeletonMeta]
   \<and> timers (snd (renderVerse translationMissing DEFAULT_SETTINGS 499 init)) = [(0, 5000, 1)]
   \<and> fst (renderVerse translationMissing DEFAULT_SETTINGS 499 init) = None
   \<and> timers (snd (renderVerse renumbering DEFAULT_SETTINGS 499 init)) = []"
proof -
  have bad: "\<not> allSucceeded translationMissing DEFAULT_SETTINGS 499 init"
    by (simp add: allSucceeded_def succeeded_def translationMissing_def init_def)
  have good: "allSucceeded renumbering DEFAULT_SETTINGS 499 init"
    by (simp add: allSucceeded_def succeeded_def renumbering_def init_def)
  show ?thesis
    using renderVerse_failure_keeps_skeleton [of translationMissing DEFAULT_SETTINGS 499 init]
      renderVerse_failure_keeps_skeleton [of renumbering DEFAULT_SETTINGS 499 init]
      bad good
    by (simp add: init_def)
qed

lemma renderVerse_covered: "covered s \<Longrightarrow> covered (snd (renderVerse r st k s))"
  by (auto simp: covered_def list_all_iff renderVerse_def tryBody_def requestUrl_def renderCard_def
        catchBlock_def Let_def split: http.splits)

lemma fire_covered:
  assumes c: "covered s"
  shows "covered (fire r st k tid s)"
proof (cases "find (\<lambda>t. fst t = tid) (timers s)")
  case None
  then show ?thesis using c by (simp add: fire_def)
next
  case (Some t)
  let ?s = "s\<lparr>timers := filter (\<lambda>t. fst t \<noteq> tid) (timers s)\<rparr>"
  have "covered ?s" using c by (auto simp: covered_def list_all_iff)
  then have "covered (retry r st k (snd (snd t)) ?s)"
    by (simp add: retry_def renderVerse_covered)
  then show ?thesis using Some by (simp add: fire_def)
qed

lemma teardown_covered: "covered s \<Longrightarrow> covered (teardown s)"
  by (auto simp: covered_def teardown_def detach_def unloadChildren_def list_all_iff)

lemma step_covered: "covered s \<Longrightarrow> covered (step r s e)"
  by (cases e) (simp_all add: renderVerse_covered fire_covered teardown_covered)

lemma run_covered: "covered s \<Longrightarrow> covered (run r evs s)"
  unfolding run_def by (induction evs arbitrary: s) (simp_all add: step_covered)

lemma init_covered: "covered init"
  by (simp add: covered_def init_def)

lemma unloadChildren_no_timers: "covered s \<Longrightarrow> timers (unloadChildren s) = []"
  by (auto simp: covered_def unloadChildren_def list_all_iff filter_empty_conv)

lemma fire_no_timers: "timers s = [] \<Longrightarrow> fire r st k tid s = s"
  by (simp add: fire_def)

lemma fires_no_timers: "timers s = [] \<Longrightarrow> run r (fires fs) s = s"
  unfolding run_def fires_def by (induction fs) (simp_all add: fire_no_timers)

lemma fire_detached:
  "\<not> attached s \<Longrightarrow>
     \<not> attached (fire r st k tid s)
     \<and> requests (fire r st k tid s) = requests s
     \<and> content (fire r st k tid s) = content s"
  by (simp add: fire_def retry_def isConnected_def split: option.splits)

lemma fires_detached:
  "\<not> attached s \<Longrightarrow>
     requests (run r (fires fs) s) = requests s \<and> content (run r (fires fs) s) = content s"
  unfolding run_def fires_def
proof (induction fs arbitrary: s)
  case Nil
  then show ?case by simp
next
  case (Cons f fs)
  let ?s = "fire r (fst (snd f)) (snd (snd f)) (fst f) s"
  have "\<not> attached ?s" "requests ?s = requests s" "content ?s = content s"
    using Cons.prems fire_detached [of s r "fst (snd f)" "snd (snd f)" "fst f"] by simp_all
  then show ?case using Cons.IH [of ?s] by simp
qed

text \<open>
  Without a teardown the retry does run: after a failed attempt the timer, once due,
  issues the next lookup. After a teardown the same timer event issues nothing.
\<close>

lemma retry_fires_without_teardown:
  "length (requests (run failing [Render DEFAULT_SETTINGS 499, Fire 0 DEFAULT_SETTINGS 41] init)) = 2
   \<and> length (requests
        (run failing [Render DEFAULT_SETTINGS 499, Teardown, Fire 0 DEFAULT_SETTINGS 41] init)) = 1"
  by (simp add: run_def failing_def init_def renderVerse_def tryBody_def requestUrl_def
        catchBlock_def fire_def retry_def isConnected_def teardown_def detach_def
        unloadChildren_def Let_def)

text \<open>
  C4. Take any history of one surface (renders, timers coming due, earlier teardowns)
  and tear the surface down. Whatever timers come due afterwards, no request is issued
  and the card is not touched. Each of the two mechanisms is enough alone: unloading
  the cleanup children clears every pending timer, and with \<open>el\<close> out of the document
  a callback that still runs finds its container disconnected and does not render.
\<close>

theorem no_retry_after_teardown:
  "requests (run r (fires fs) (teardown (run r evs init))) = requests (run r evs init)
   \<and> content (run r (fires fs) (teardown (run r evs init))) = content (run r evs init)
   \<and> timers (teardown (run r evs init)) = []
   \<and> requests (run r (fires fs) (unloadChildren (run r evs init))) = requests (run r evs init)
   \<and> requests (run r (fires fs) (detach (run r evs init))) = requests (run r evs init)"
proof -
  let ?s = "run r evs init"
  have c: "covered ?s" by (rule run_covered [OF init_covered])
  have u: "timers (unloadChildren ?s) = []" by (rule unloadChildren_no_timers [OF c])
  have t: "timers (teardown ?s) = []" using u by (simp add: teardown_def detach_def)
  have 1: "run r (fires fs) (teardown ?s) = teardown ?s" by (rule fires_no_timers [OF t])
  have 2: "run r (fires fs) (unloadChildren ?s) = unloadChildren ?s"
    by (rule fires_no_timers [OF u])
  have 3: "requests (run r (fires fs) (detach ?s)) = requests (detach ?s)"
    by (rule fires_detached [THEN conjunct1]) (simp add: detach_def)
  show ?thesis using 1 2 3 t by (simp add: teardown_def detach_def unloadChildren_def)
qed

theorem no_retry_after_teardown_witness:
  "requests (run failing (fires [(0, DEFAULT_SETTINGS, 41)])
              (teardown (run failing [Render DEFAULT_SETTINGS 499] init))) = [ayahUrl 500]
   \<and> timers (run failing [Render DEFAULT_SETTINGS 499] init) = [(0, 5000, 1)]"
proof -
  have before: "requests (run failing [Render DEFAULT_SETTINGS 499] init) = [ayahUrl 500]
      \<and> timers (run failing [Render DEFAULT_SETTINGS 499] init) = [(0, 5000, 1)]"
    by (simp add: run_def failing_def init_def renderVerse_def tryBody_def requestUrl_def
          catchBlock_def Let_def)
  show ?thesis
    using no_retry_after_teardown
            [of failing "[(0, DEFAULT_SETTINGS, 41)]" "[Render DEFAULT_SETTINGS 499]"] before
    by simp
qed

section \<open>The sorted language lists\<close>

lemma set_insertByName: "set (insertByName h x ys) = insert x (set ys)"
  by (induction ys) auto

lemma set_sortByName: "set (sortByName h xs) = set xs"
  unfolding sortByName_def by (induction xs) (simp_all add: set_insertByName)

text \<open>
  When \<open>localeCompare\<close> is a total preorder on the names, the sorted list is in
  ascending order of name.
\<close>

lemma sorted_insertByName:
  assumes total: "\<And>a b. localeCompare h a b \<le> 0 \<or> localeCompare h b a \<le> 0"
    and trans: "\<And>a b c. localeCompare h a b \<le> 0 \<Longrightarrow> localeCompare h b c \<le> 0 \<Longrightarrow>
                  localeCompare h a c \<le> 0"
    and sorted: "sorted_wrt (\<lambda>a b. localeCompare h (l_name a) (l_name b) \<le> 0) ys"
  shows "sorted_wrt (\<lambda>a b. localeCompare h (l_name a) (l_name b) \<le> 0) (insertByName h x ys)"
  using sorted
proof (induction ys)
  case Nil
  then show ?case by simp
next
  case (Cons y ys)
  show ?case
  proof (cases "localeCompare h (l_name x) (l_name y) \<le> 0")
    case True
    then show ?thesis using Cons.prems trans by auto
  next
    case False
    then have "localeCompare h (l_name y) (l_name x) \<le> 0" using total by blast
    then show ?thesis using False Cons by (auto simp: set_insertByName)
  qed
qed

lemma sorted_sortByName:
  assumes "\<And>a b. localeCompare h a b \<le> 0 \<or> localeCompare h b a \<le> 0"
    and "\<And>a b c. localeCompare h a b \<le> 0 \<Longrightarrow> localeCompare h b c \<le> 0 \<Longrightarrow>
                  localeCompare h a c \<le> 0"
  shows "sorted_wrt (\<lambda>a b. localeCompare h (l_name a) (l_name b) \<le> 0) (sortByName h xs)"
  unfolding sortByName_def
  by (induction xs) (simp_all add: sorted_insertByName [OF assms])

lemma mset_insertByName: "mset (insertByName h x ys) = add_mset x (mset ys)"
  by (induction ys) auto

lemma mset_sortByName: "mset (sortByName h xs) = mset xs"
  unfolding sortByName_def by (induction xs) (simp_all add: mset_insertByName)

text \<open>
  The sort is stable: entries whose names the collation does not tell apart keep the
  order they had.
\<close>

lemma filter_insertByName:
  assumes trans: "\<And>a b c. localeCompare h a b \<le> 0 \<Longrightarrow> localeCompare h b c \<le> 0 \<Longrightarrow>
                  localeCompare h a c \<le> 0"
  shows "filter (\<lambda>e. localeCompare h (l_name e) k \<le> 0 \<and> localeCompare h k (l_name e) \<le> 0)
           (insertByName h x ys) =
         (if localeCompare h (l_name x) k \<le> 0 \<and> localeCompare h k (l_name x) \<le> 0
          then x # filter (\<lambda>e. localeCompare h (l_name e) k \<le> 0 \<and> localeCompare h k (l_name e) \<le> 0) ys
          else filter (\<lambda>e. localeCompare h (l_name e) k \<le> 0 \<and> localeCompare h k (l_name e) \<le> 0) ys)"
proof (induction ys)
  case Nil
  then show ?case by simp
next
  case (Cons y ys)
  show ?case
  proof (cases "localeCompare h (l_name x) (l_name y) \<le> 0")
    case True
    then show ?thesis by simp
  next
    case False
    have "\<not> (localeCompare h (l_name x) k \<le> 0 \<and> localeCompare h k (l_name y) \<le> 0)"
      using False trans by blast
    then show ?thesis using False Cons by auto
  qed
qed

lemma filter_sortByName:
  assumes "\<And>a b c. localeCompare h a b \<le> 0 \<Longrightarrow> localeCompare h b c \<le> 0 \<Longrightarrow>
                  localeCompare h a c \<le> 0"
  shows "filter (\<lambda>e. localeCompare h (l_name e) k \<le> 0 \<and> localeCompare h k (l_name e) \<le> 0)
           (sortByName h xs) =
         filter (\<lambda>e. localeCompare h (l_name e) k \<le> 0 \<and> localeCompare h k (l_name e) \<le> 0) xs"
  unfolding sortByName_def
  by (induction xs) (simp_all add: filter_insertByName [OF assms])

text \<open>\<open>uniq\<close> keeps the first occurrence of each element, in the order of the list.\<close>

lemma uniq_Nil: "uniq [] = []"
  by (simp add: uniq_def)

lemma uniq_snoc: "uniq (xs @ [x]) = (if x \<in> set xs then uniq xs else uniq xs @ [x])"
  by (simp add: uniq_def)

lemma distinct_uniq: "distinct (uniq xs)"
  by (simp add: uniq_def)

lemma set_uniq: "set (uniq xs) = set xs"
  by (simp add: uniq_def)

lemma mset_uniq: "mset (uniq xs) = mset_set (set xs)"
  using mset_set_set [OF distinct_uniq, of xs] by (simp add: set_uniq)

text \<open>The order of code units is a total preorder.\<close>

lemma unitCompare_total: "unitCompare a b \<le> 0 \<or> unitCompare b a \<le> 0"
  by (induction a b rule: unitCompare.induct) auto

lemma unitCompare_trans:
  "unitCompare a b \<le> 0 \<Longrightarrow> unitCompare b c \<le> 0 \<Longrightarrow> unitCompare a c \<le> 0"
proof (induction a arbitrary: b c)
  case Nil
  then show ?case by (cases c) simp_all
next
  case (Cons x xs)
  show ?case
  proof (cases b)
    case Nil
    then show ?thesis using Cons.prems by simp
  next
    case b: (Cons y ys)
    show ?thesis
    proof (cases c)
      case Nil
      then show ?thesis using Cons.prems b by simp
    next
      case c: (Cons z zs)
      show ?thesis
        using Cons.prems Cons.IH [of ys zs] unfolding b c
        by (auto split: if_splits)
    qed
  qed
qed

section \<open>The metadata resolver\<close>

lemma display_frame:
  "isLoadingMetadata (display s) = isLoadingMetadata s
   \<and> tafsirEditions (display s) = tafsirEditions s
   \<and> tafsirLanguages (display s) = tafsirLanguages s
   \<and> languages (display s) = languages s
   \<and> editions (display s) = editions s
   \<and> calls (display s) = calls s
   \<and> notices (display s) = notices s
   \<and> translation (plugin_settings (display s)) = translation (plugin_settings s)
   \<and> language (plugin_settings (display s)) = language (plugin_settings s)
   \<and> tafsirLanguage (plugin_settings (display s)) = tafsirLanguage (plugin_settings s)"
  by (simp add: display_def saveSettings_def Let_def split: list.splits)

lemma setDefaultTafsir_frame:
  "isLoadingMetadata (setDefaultTafsir s) = isLoadingMetadata s
   \<and> tafsirEditions (setDefaultTafsir s) = tafsirEditions s
   \<and> tafsirLanguages (setDefaultTafsir s) = tafsirLanguages s
   \<and> languages (setDefaultTafsir s) = languages s
   \<and> editions (setDefaultTafsir s) = editions s
   \<and> calls (setDefaultTafsir s) = calls s
   \<and> translation (plugin_settings (setDefaultTafsir s)) = translation (plugin_settings s)
   \<and> language (plugin_settings (setDefaultTafsir s)) = language (plugin_settings s)
   \<and> tafsirLanguage (plugin_settings (setDefaultTafsir s)) = tafsirLanguage (plugin_settings s)"
  by (simp add: setDefaultTafsir_def saveSettings_def Let_def split: list.splits)

lemma reconcileTafsirLanguage_frame:
  "isLoadingMetadata (reconcileTafsirLanguage s) = isLoadingMetadata s
   \<and> tafsirEditions (reconcileTafsirLanguage s) = tafsirEditions s
   \<and> tafsirLanguages (reconcileTafsirLanguage s) = tafsirLanguages s
   \<and> languages (reconcileTafsirLanguage s) = languages s
   \<and> editions (reconcileTafsirLanguage s) = editions s
   \<and> calls (reconcileTafsirLanguage s) = calls s
   \<and> translation (plugin_settings (reconcileTafsirLanguage s)) = translation (plugin_settings s)
   \<and> language (plugin_settings (reconcileTafsirLanguage s)) = language (plugin_settings s)
   \<and> tafsir (plugin_settings (reconcileTafsirLanguage s)) = tafsir (plugin_settings s)
   \<and> tafsirName (plugin_settings (reconcileTafsirLanguage s)) = tafsirName (plugin_settings s)"
  by (simp add: reconcileTafsirLanguage_def saveSettings_def Let_def)

lemma reconcileTafsirLanguage_replaces:
  assumes "\<not> list_ex (\<lambda>l. l_code l = tafsirLanguage (plugin_settings s)) (tafsirLanguages s)"
  shows "plugin_settings (reconcileTafsirLanguage s) =
           (plugin_settings s)
             \<lparr>tafsirLanguage := (case tafsirLanguages s of [] \<Rightarrow> js ''en'' | l # _ \<Rightarrow> l_code l)\<rparr>
       \<and> saved (reconcileTafsirLanguage s) = saved s @ [plugin_settings (reconcileTafsirLanguage s)]"
  using assms by (simp add: reconcileTafsirLanguage_def saveSettings_def Let_def)

lemma reconcileTafsirLanguage_keeps:
  assumes "list_ex (\<lambda>l. l_code l = tafsirLanguage (plugin_settings s)) (tafsirLanguages s)"
  shows "reconcileTafsirLanguage s = s"
  using assms by (simp add: reconcileTafsirLanguage_def Let_def)

lemma filterTafsirs_frame:
  "plugin_settings (filterTafsirs h tj s) = plugin_settings s
   \<and> saved (filterTafsirs h tj s) = saved s
   \<and> tafsirLanguages (filterTafsirs h tj s) = tafsirLanguages s
   \<and> languages (filterTafsirs h tj s) = languages s
   \<and> editions (filterTafsirs h tj s) = editions s
   \<and> tafsirEditions (filterTafsirs h tj s) = tafsirsFor h (tafsirLanguage (plugin_settings s)) tj"
  by (simp add: filterTafsirs_def)

text \<open>What the last two steps of a refresh leave in the tafsir fields.\<close>

lemma setDefaultTafsir_member:
  "tafsirEditions s \<noteq> [] \<Longrightarrow>
     list_ex (\<lambda>t. e_identifier t = tafsir (plugin_settings (setDefaultTafsir s))) (tafsirEditions s)"
  by (cases "tafsirEditions s") (auto simp: setDefaultTafsir_def saveSettings_def Let_def)

lemma setDefaultTafsir_empty:
  "tafsirEditions s = [] \<Longrightarrow>
     tafsir (plugin_settings (setDefaultTafsir s)) = []
     \<and> tafsirName (plugin_settings (setDefaultTafsir s)) = []
     \<and> saved (setDefaultTafsir s) = saved s @ [plugin_settings (setDefaultTafsir s)]"
  by (simp add: setDefaultTafsir_def saveSettings_def Let_def)

lemma setDefaultTafsir_saved:
  "tafsir (plugin_settings (setDefaultTafsir s)) \<noteq> tafsir (plugin_settings s) \<Longrightarrow>
     saved (setDefaultTafsir s) = saved s @ [plugin_settings (setDefaultTafsir s)]"
  by (cases "tafsirEditions s") (auto simp: setDefaultTafsir_def saveSettings_def Let_def)

lemma display_member:
  "tafsirEditions s \<noteq> [] \<Longrightarrow>
     list_ex (\<lambda>t. e_identifier t = tafsir (plugin_settings s)) (tafsirEditions s) \<Longrightarrow>
     list_ex (\<lambda>t. e_identifier t = tafsir (plugin_settings (display s))) (tafsirEditions s)"
  by (cases "tafsirEditions s") (auto simp: display_def saveSettings_def Let_def)

lemma display_empty:
  "tafsirEditions s = [] \<Longrightarrow> tafsir (plugin_settings s) = [] \<Longrightarrow> display s = s\<lparr>displays := Suc (displays s)\<rparr>"
  by (simp add: display_def Let_def)

lemma display_saved:
  "tafsir (plugin_settings (display s)) \<noteq> tafsir (plugin_settings s) \<Longrightarrow>
     saved (display s) = saved s @ [plugin_settings (display s)]"
  by (cases "tafsirEditions s") (auto simp: display_def saveSettings_def Let_def)

lemma display_saved_cases:
  "(plugin_settings (display s) = plugin_settings s \<and> saved (display s) = saved s)
   \<or> saved (display s) = saved s @ [plugin_settings (display s)]"
  by (cases "tafsirEditions s") (auto simp: display_def saveSettings_def Let_def)

text \<open>A refresh whose three fetches pass their type guards, step by step.\<close>

lemma fetchLanguages_ok:
  "languageRes r = WellTyped lj \<Longrightarrow>
     fetchLanguages h r s =
       (None, (request languagesUrl s)
                \<lparr>languages := languageEntries h (data lj)\<rparr>)"
  by (simp add: fetchLanguages_def Let_def)

lemma fetchTranslationEditions_ok:
  "editionRes r (translationEditionUrl (language (plugin_settings s))) = WellTyped ej \<Longrightarrow>
     fetchTranslationEditions r s =
       (None, (request (translationEditionUrl (language (plugin_settings s))) s)
                \<lparr>editions := filter (\<lambda>e. format e = js ''text'' \<and> e_type e = js ''translation'')
                               (data ej)\<rparr>)"
  by (simp add: fetchTranslationEditions_def Let_def)

lemma fetchAndProcessTafsirs_ok:
  "tafsirRes r = WellTyped tj \<Longrightarrow>
     fetchAndProcessTafsirs h r s =
       (None, setDefaultTafsir (filterTafsirs h tj (reconcileTafsirLanguage
                ((request tafsirApiUrl s)
                   \<lparr>tafsirLanguages := deriveTafsirLanguages h (languages s) tj\<rparr>))))"
  by (simp add: fetchAndProcessTafsirs_def request_def Let_def)

lemma fetchTranslationEditions_frame:
  "plugin_settings (snd (fetchTranslationEditions r s)) = plugin_settings s
   \<and> saved (snd (fetchTranslationEditions r s)) = saved s
   \<and> languages (snd (fetchTranslationEditions r s)) = languages s
   \<and> isLoadingMetadata (snd (fetchTranslationEditions r s)) = isLoadingMetadata s"
  by (simp add: fetchTranslationEditions_def request_def notify_def Let_def split: guarded.splits)

lemma fetchLanguages_frame:
  "plugin_settings (snd (fetchLanguages h r s)) = plugin_settings s
   \<and> saved (snd (fetchLanguages h r s)) = saved s
   \<and> isLoadingMetadata (snd (fetchLanguages h r s)) = isLoadingMetadata s"
  by (simp add: fetchLanguages_def request_def notify_def Let_def split: guarded.splits)

lemma fetchAll_ok:
  assumes "languageRes r = WellTyped lj"
    and "editionRes r (translationEditionUrl (language (plugin_settings s))) = WellTyped ej"
    and "tafsirRes r = WellTyped tj"
  shows "fetchAll h r s =
           fetchAndProcessTafsirs h r
             (snd (fetchTranslationEditions r (snd (fetchLanguages h r s))))
       \<and> languages (snd (fetchTranslationEditions r (snd (fetchLanguages h r s)))) =
           languageEntries h (data lj)
       \<and> plugin_settings (snd (fetchTranslationEditions r (snd (fetchLanguages h r s)))) =
           plugin_settings s
       \<and> saved (snd (fetchTranslationEditions r (snd (fetchLanguages h r s)))) = saved s"
proof -
  have l: "fetchLanguages h r s =
       (None, (request languagesUrl s)
                \<lparr>languages := languageEntries h (data lj)\<rparr>)"
    by (rule fetchLanguages_ok [OF assms(1)])
  let ?s1 = "snd (fetchLanguages h r s)"
  have ps: "plugin_settings ?s1 = plugin_settings s" by (simp add: fetchLanguages_frame)
  have t: "fst (fetchTranslationEditions r ?s1) = None"
    using assms(2) ps by (simp add: fetchTranslationEditions_def Let_def)
  have "fetchAll h r s = fetchAndProcessTafsirs h r (snd (fetchTranslationEditions r ?s1))"
    using l t by (auto simp: fetchAll_def split: prod.splits option.splits)
  moreover have "languages (snd (fetchTranslationEditions r ?s1)) =
           languageEntries h (data lj)"
    using l by (simp add: fetchTranslationEditions_frame)
  ultimately show ?thesis by (simp add: fetchTranslationEditions_frame fetchLanguages_frame)
qed

lemma setDefaultTafsir_saved_cases:
  "saved (setDefaultTafsir s) = saved s
   \<or> saved (setDefaultTafsir s) = saved s @ [plugin_settings (setDefaultTafsir s)]"
  by (cases "tafsirEditions s") (auto simp: setDefaultTafsir_def saveSettings_def Let_def)

text \<open>
  The state in which a refresh that found the busy flag clear and fetched all three catalogs
  leaves the tab: \<open>display\<close> after the flag is reset, after the three steps of
  \<open>fetchAndProcessTafsirs\<close> on a state \<open>T\<close> that still has the settings and the saved
  snapshots of the start.
\<close>

lemma fetchMetadata_ok:
  assumes "\<not> isLoadingMetadata s"
    and "languageRes r = WellTyped lj"
    and "editionRes r (translationEditionUrl (language (plugin_settings s))) = WellTyped ej"
    and "tafsirRes r = WellTyped tj"
  shows "\<exists>T. fetchMetadata h r s =
               (None, display ((setDefaultTafsir (filterTafsirs h tj (reconcileTafsirLanguage T)))
                                 \<lparr>isLoadingMetadata := False\<rparr>))
           \<and> plugin_settings T = plugin_settings s
           \<and> saved T = saved s
           \<and> languages T =
               languageEntries h (data lj)
           \<and> tafsirLanguages T = deriveTafsirLanguages h (languages T) tj
           \<and> editions T =
               filter (\<lambda>e. format e = js ''text'' \<and> e_type e = js ''translation'') (data ej)"
proof -
  let ?s0 = "s\<lparr>isLoadingMetadata := True\<rparr>"
  let ?s2 = "snd (fetchTranslationEditions r (snd (fetchLanguages h r ?s0)))"
  let ?T = "(request tafsirApiUrl ?s2)\<lparr>tafsirLanguages := deriveTafsirLanguages h (languages ?s2) tj\<rparr>"
  have e: "editionRes r (translationEditionUrl (language (plugin_settings ?s0))) = WellTyped ej"
    using assms(3) by simp
  note all = fetchAll_ok [OF assms(2) e assms(4), of h]
  have "fetchAll h r ?s0 =
          (None, setDefaultTafsir (filterTafsirs h tj (reconcileTafsirLanguage ?T)))"
    using all fetchAndProcessTafsirs_ok [OF assms(4), of h ?s2] by simp
  then have 1: "fetchMetadata h r s =
               (None, display ((setDefaultTafsir (filterTafsirs h tj (reconcileTafsirLanguage ?T)))
                                 \<lparr>isLoadingMetadata := False\<rparr>))"
    using assms(1) by (simp add: fetchMetadata_def Let_def)
  have 2: "plugin_settings ?T = plugin_settings s" "saved ?T = saved s"
    using all by (simp_all add: request_def)
  have 3: "languages ?T =
               languageEntries h (data lj)"
    using all by (simp add: request_def)
  have 4: "tafsirLanguages ?T = deriveTafsirLanguages h (languages ?T) tj"
    by (simp add: request_def)
  have "editionRes r (translationEditionUrl (language (plugin_settings (snd (fetchLanguages h r ?s0)))))
          = WellTyped ej"
    using assms(3) by (simp add: fetchLanguages_frame)
  then have 5: "editions ?T =
      filter (\<lambda>e. format e = js ''text'' \<and> e_type e = js ''translation'') (data ej)"
    by (simp add: fetchTranslationEditions_ok request_def)
  show ?thesis using 1 2 3 4 5 by blast
qed

text \<open>
  C9. A call of \<open>fetchMetadata\<close> that finds the busy flag set resolves at once and
  leaves the whole state as it was: no request, no notice, no change to a catalog or
  to the settings, nothing saved.
\<close>

theorem fetchMetadata_busy_noop:
  "isLoadingMetadata s \<Longrightarrow> fetchMetadata h r s = (None, s)"
  by (simp add: fetchMetadata_def)

theorem fetchMetadata_busy_noop_witness:
  "fetchMetadata exampleHost (exampleCatalogs [kathir]) (inFlight (newTab DEFAULT_SETTINGS)) =
     (None, inFlight (newTab DEFAULT_SETTINGS))
   \<and> calls (inFlight (newTab DEFAULT_SETTINGS)) = [languagesUrl]
   \<and> isLoadingMetadata (inFlight (newTab DEFAULT_SETTINGS))"
proof -
  have busy: "isLoadingMetadata (inFlight (newTab DEFAULT_SETTINGS))"
    by (simp add: inFlight_def request_def)
  have c: "calls (inFlight (newTab DEFAULT_SETTINGS)) = [languagesUrl]"
    by (simp add: inFlight_def request_def newTab_def)
  show ?thesis
    using fetchMetadata_busy_noop [OF busy, of exampleHost "exampleCatalogs [kathir]"] busy c
    by simp
qed

lemma fetchAll_calls: "\<exists>rest. calls (snd (fetchAll h r s)) = calls s @ languagesUrl # rest"
  by (auto simp: fetchAll_def fetchLanguages_def fetchTranslationEditions_def
        fetchAndProcessTafsirs_def request_def notify_def setDefaultTafsir_frame
        filterTafsirs_def reconcileTafsirLanguage_frame Let_def
        split: guarded.splits)

lemma fetchMetadata_calls:
  assumes "\<not> isLoadingMetadata s"
  shows "\<exists>rest. calls (snd (fetchMetadata h r s)) = calls s @ languagesUrl # rest"
proof -
  obtain rest where
    "calls (snd (fetchAll h r (s\<lparr>isLoadingMetadata := True\<rparr>))) = calls s @ languagesUrl # rest"
    using fetchAll_calls [of h r "s\<lparr>isLoadingMetadata := True\<rparr>"] by auto
  then show ?thesis
    using assms
    by (auto simp: fetchMetadata_def display_frame notify_def Let_def split: prod.splits option.splits)
qed

text \<open>
  C10. A refresh that finds the busy flag clear resolves with the busy flag false again, whatever
  the three fetches did, so the next refresh finds it clear too and issues its first
  request.
\<close>

theorem fetchMetadata_resets_busy:
  assumes "\<not> isLoadingMetadata s"
  shows "fst (fetchMetadata h r s) = None
       \<and> \<not> isLoadingMetadata (snd (fetchMetadata h r s))
       \<and> (\<exists>rest. calls (snd (fetchMetadata h r' (snd (fetchMetadata h r s)))) =
                   calls (snd (fetchMetadata h r s)) @ languagesUrl # rest)"
proof -
  have 1: "fst (fetchMetadata h r s) = None" by (simp add: fetchMetadata_def Let_def)
  have 2: "\<not> isLoadingMetadata (snd (fetchMetadata h r s))"
    using assms by (simp add: fetchMetadata_def display_frame Let_def)
  show ?thesis using 1 2 fetchMetadata_calls [OF 2, of h r'] by simp
qed

theorem fetchMetadata_resets_busy_witness:
  "\<not> isLoadingMetadata (snd (fetchMetadata exampleHost offline (newTab DEFAULT_SETTINGS)))
   \<and> notices (snd (fetchMetadata exampleHost offline (newTab DEFAULT_SETTINGS))) =
       [''Failed to fetch languages. Check your internet connection.'',
        ''An unexpected error occurred. Please check the console for details.'']
   \<and> fst (fetchMetadata exampleHost offline (newTab DEFAULT_SETTINGS)) = None"
proof -
  have idle: "\<not> isLoadingMetadata (newTab DEFAULT_SETTINGS)" by (simp add: newTab_def)
  have n: "notices (snd (fetchMetadata exampleHost offline (newTab DEFAULT_SETTINGS))) =
       [''Failed to fetch languages. Check your internet connection.'',
        ''An unexpected error occurred. Please check the console for details.'']"
    by (simp add: fetchMetadata_def fetchAll_def fetchLanguages_def offline_def newTab_def
          request_def notify_def display_frame Let_def)
  show ?thesis
    using fetchMetadata_resets_busy [OF idle, of exampleHost offline offline] n by simp
qed

text \<open>
  What a refresh derives from a well-typed tafsir catalog. There is one entry for each
  distinct language name of the catalog: its name is the language name with the first
  letter upper-cased, its code is the code of the first language entry whose name is
  the same up to case, or else the lower-cased language name.
\<close>

lemma mset_deriveTafsirLanguages:
  "mset (deriveTafsirLanguages h langs tj) =
     image_mset
       (\<lambda>n. \<lparr>l_code = orElse (map_option l_code
                                 (find (\<lambda>l. toLowerCase h (l_name l) = toLowerCase h n) langs))
                              (toLowerCase h n),
              l_name = toUpperCase h (take 1 n) @ drop 1 n\<rparr>)
       (mset_set (language_name ` set tj))"
proof -
  have "mset (uniq (map language_name tj)) = mset_set (language_name ` set tj)"
    using mset_uniq [of "map language_name tj"] by simp
  then show ?thesis
    unfolding deriveTafsirLanguages_def mset_sortByName mset_map by simp
qed

lemma mset_languageEntries:
  "mset (languageEntries h codes) =
     image_mset (\<lambda>c. \<lparr>l_code = c, l_name = getFullLanguageName h c\<rparr>) (mset codes)"
  unfolding languageEntries_def mset_sortByName by simp

text \<open>
  C6. When \<open>fetchAndProcessTafsirs\<close> gets a well-typed catalog it runs three steps in
  this order: the tafsir language is reconciled, the catalog is filtered, the tafsir
  edition is reconciled. The first step, when the configured code is not among the
  derived languages, replaces it by the code of the first derived entry, or by \<open>en\<close>
  when there is none, and saves at once, while the edition catalog is still the old
  one. For a whole refresh whose configured code is not among the languages derived
  from the fetched catalog: the tab keeps the derived list, which has one entry for
  each distinct language name of the fetched catalog (name capitalised, code matched
  in the language list or the lower-cased name); when \<open>localeCompare\<close> is a total
  preorder that list is in ascending order of name, and entries with tied names stand
  in the order in which their language names first occur in the catalog; the
  configured code ends as the code of the first entry (or \<open>en\<close>), the first snapshot
  saved by the refresh is the old settings with only that code replaced, and the
  edition catalog is the one filtered by the new code.
\<close>

theorem tafsir_language_reconciled:
  assumes "\<not> isLoadingMetadata s"
    and "languageRes r = WellTyped lj"
    and "editionRes r (translationEditionUrl (language (plugin_settings s))) = WellTyped ej"
    and "tafsirRes r = WellTyped tj"
    and "\<not> list_ex (\<lambda>l. l_code l = tafsirLanguage (plugin_settings s))
             (deriveTafsirLanguages h (languageEntries h (data lj)) tj)"
  shows "(\<forall>t. fetchAndProcessTafsirs h r t =
            (None, setDefaultTafsir (filterTafsirs h tj (reconcileTafsirLanguage
                     ((request tafsirApiUrl t)
                        \<lparr>tafsirLanguages := deriveTafsirLanguages h (languages t) tj\<rparr>)))))
       \<and> (\<forall>t. \<not> list_ex (\<lambda>l. l_code l = tafsirLanguage (plugin_settings t)) (tafsirLanguages t) \<longrightarrow>
              tafsirLanguage (plugin_settings (reconcileTafsirLanguage t)) =
                (case tafsirLanguages t of [] \<Rightarrow> js ''en'' | l # _ \<Rightarrow> l_code l)
            \<and> saved (reconcileTafsirLanguage t) = saved t @ [plugin_settings (reconcileTafsirLanguage t)]
            \<and> tafsirEditions (reconcileTafsirLanguage t) = tafsirEditions t)
       \<and> tafsirLanguages (snd (fetchMetadata h r s)) =
           deriveTafsirLanguages h (languageEntries h (data lj)) tj
       \<and> mset (languages (snd (fetchMetadata h r s))) =
           image_mset (\<lambda>c. \<lparr>l_code = c, l_name = getFullLanguageName h c\<rparr>) (mset (data lj))
       \<and> mset (tafsirLanguages (snd (fetchMetadata h r s))) =
           image_mset
             (\<lambda>n. \<lparr>l_code = orElse (map_option l_code
                                       (find (\<lambda>l. toLowerCase h (l_name l) = toLowerCase h n)
                                          (languages (snd (fetchMetadata h r s)))))
                                    (toLowerCase h n),
                    l_name = toUpperCase h (take 1 n) @ drop 1 n\<rparr>)
             (mset_set (language_name ` set tj))
       \<and> ((\<forall>a b. localeCompare h a b \<le> 0 \<or> localeCompare h b a \<le> 0)
            \<and> (\<forall>a b c. localeCompare h a b \<le> 0 \<and> localeCompare h b c \<le> 0 \<longrightarrow>
                         localeCompare h a c \<le> 0) \<longrightarrow>
            sorted_wrt (\<lambda>a b. localeCompare h (l_name a) (l_name b) \<le> 0)
              (tafsirLanguages (snd (fetchMetadata h r s)))
          \<and> sorted_wrt (\<lambda>a b. localeCompare h (l_name a) (l_name b) \<le> 0)
              (languages (snd (fetchMetadata h r s)))
          \<and> (\<forall>k. filter (\<lambda>e. localeCompare h (l_name e) k \<le> 0 \<and> localeCompare h k (l_name e) \<le> 0)
                     (tafsirLanguages (snd (fetchMetadata h r s))) =
                   filter (\<lambda>e. localeCompare h (l_name e) k \<le> 0 \<and> localeCompare h k (l_name e) \<le> 0)
                     (map (\<lambda>n. \<lparr>l_code = orElse (map_option l_code
                                       (find (\<lambda>l. toLowerCase h (l_name l) = toLowerCase h n)
                                          (languages (snd (fetchMetadata h r s)))))
                                    (toLowerCase h n),
                                 l_name = toUpperCase h (take 1 n) @ drop 1 n\<rparr>)
                        (uniq (map language_name tj)))))
       \<and> (\<forall>xs :: jsstring list. \<forall>x. uniq ([] :: jsstring list) = []
              \<and> uniq (xs @ [x]) = (if x \<in> set xs then uniq xs else uniq xs @ [x]))
       \<and> tafsirLanguage (plugin_settings (snd (fetchMetadata h r s))) =
           (case tafsirLanguages (snd (fetchMetadata h r s)) of
              [] \<Rightarrow> js ''en'' | l # _ \<Rightarrow> l_code l)
       \<and> take (Suc (length (saved s))) (saved (snd (fetchMetadata h r s))) =
           saved s @ [(plugin_settings s)
                        \<lparr>tafsirLanguage := tafsirLanguage (plugin_settings (snd (fetchMetadata h r s)))\<rparr>]
       \<and> tafsirEditions (snd (fetchMetadata h r s)) =
           tafsirsFor h (tafsirLanguage (plugin_settings (snd (fetchMetadata h r s)))) tj"
proof -
  obtain T where run: "fetchMetadata h r s =
               (None, display ((setDefaultTafsir (filterTafsirs h tj (reconcileTafsirLanguage T)))
                                 \<lparr>isLoadingMetadata := False\<rparr>))"
    and T: "plugin_settings T = plugin_settings s" "saved T = saved s"
      "languages T = languageEntries h (data lj)"
      "tafsirLanguages T = deriveTafsirLanguages h (languages T) tj"
    using fetchMetadata_ok [OF assms(1-4), of h] by blast
  let ?U = "reconcileTafsirLanguage T"
  let ?F = "filterTafsirs h tj ?U"
  let ?D = "setDefaultTafsir ?F"
  let ?E = "?D\<lparr>isLoadingMetadata := False\<rparr>"
  let ?L = "languageEntries h (data lj)"
  let ?TL = "deriveTafsirLanguages h ?L tj"
  let ?new = "case ?TL of [] \<Rightarrow> js ''en'' | l # _ \<Rightarrow> l_code l"
  let ?R = "\<lambda>a b. localeCompare h (l_name a) (l_name b) \<le> 0"
  let ?entry = "\<lambda>n. \<lparr>l_code = orElse (map_option l_code
                                       (find (\<lambda>l. toLowerCase h (l_name l) = toLowerCase h n) ?L))
                                    (toLowerCase h n),
                         l_name = toUpperCase h (take 1 n) @ drop 1 n\<rparr>"
  have s': "snd (fetchMetadata h r s) = display ?E" using run by simp
  have tlT: "tafsirLanguages T = ?TL" using T(3,4) by simp
  have tl: "tafsirLanguages (display ?E) = ?TL"
    using tlT
    by (simp add: display_frame setDefaultTafsir_frame filterTafsirs_frame
          reconcileTafsirLanguage_frame)
  have langs: "languages (display ?E) = ?L"
    using T(3)
    by (simp add: display_frame setDefaultTafsir_frame filterTafsirs_frame
          reconcileTafsirLanguage_frame)
  have absent: "\<not> list_ex (\<lambda>l. l_code l = tafsirLanguage (plugin_settings T)) (tafsirLanguages T)"
    using assms(5) tlT T(1) by simp
  note rep = reconcileTafsirLanguage_replaces [OF absent]
  have psU: "plugin_settings ?U = (plugin_settings s)\<lparr>tafsirLanguage := ?new\<rparr>"
    using rep T(1) tlT by simp
  have savedU: "saved ?U = saved s @ [plugin_settings ?U]" using rep T(2) by simp
  have lang': "tafsirLanguage (plugin_settings (display ?E)) = ?new"
    using psU by (simp add: display_frame setDefaultTafsir_frame filterTafsirs_frame)
  have eds: "tafsirEditions (display ?E) = tafsirsFor h ?new tj"
    using psU by (simp add: display_frame setDefaultTafsir_frame filterTafsirs_frame)
  have savedD: "\<exists>xs. saved ?D = saved ?U @ xs"
    using setDefaultTafsir_saved_cases [of ?F] by (auto simp: filterTafsirs_frame)
  have savedE: "\<exists>ys. saved (display ?E) = saved ?D @ ys"
    using display_saved_cases [of ?E] by auto
  have tk: "take (Suc (length (saved s))) (saved (display ?E)) = saved s @ [plugin_settings ?U]"
    using savedD savedE savedU by auto
  have a: "\<forall>t. fetchAndProcessTafsirs h r t =
            (None, setDefaultTafsir (filterTafsirs h tj (reconcileTafsirLanguage
                     ((request tafsirApiUrl t)
                        \<lparr>tafsirLanguages := deriveTafsirLanguages h (languages t) tj\<rparr>))))"
    using fetchAndProcessTafsirs_ok [OF assms(4)] by blast
  have b: "\<forall>t. \<not> list_ex (\<lambda>l. l_code l = tafsirLanguage (plugin_settings t)) (tafsirLanguages t) \<longrightarrow>
              tafsirLanguage (plugin_settings (reconcileTafsirLanguage t)) =
                (case tafsirLanguages t of [] \<Rightarrow> js ''en'' | l # _ \<Rightarrow> l_code l)
            \<and> saved (reconcileTafsirLanguage t) = saved t @ [plugin_settings (reconcileTafsirLanguage t)]
            \<and> tafsirEditions (reconcileTafsirLanguage t) = tafsirEditions t"
    using reconcileTafsirLanguage_replaces reconcileTafsirLanguage_frame by simp
  have c: "mset (languages (display ?E)) =
           image_mset (\<lambda>c. \<lparr>l_code = c, l_name = getFullLanguageName h c\<rparr>) (mset (data lj))"
    unfolding langs by (rule mset_languageEntries)
  have d: "mset (tafsirLanguages (display ?E)) = image_mset ?entry (mset_set (language_name ` set tj))"
    unfolding tl by (rule mset_deriveTafsirLanguages)
  have srt: "sorted_wrt ?R (tafsirLanguages (display ?E))
          \<and> sorted_wrt ?R (languages (display ?E))
          \<and> (\<forall>k. filter (\<lambda>e. localeCompare h (l_name e) k \<le> 0 \<and> localeCompare h k (l_name e) \<le> 0)
                     (tafsirLanguages (display ?E)) =
                   filter (\<lambda>e. localeCompare h (l_name e) k \<le> 0 \<and> localeCompare h k (l_name e) \<le> 0)
                     (map ?entry (uniq (map language_name tj))))"
    if pre: "(\<forall>a b. localeCompare h a b \<le> 0 \<or> localeCompare h b a \<le> 0)
            \<and> (\<forall>a b c. localeCompare h a b \<le> 0 \<and> localeCompare h b c \<le> 0 \<longrightarrow>
                         localeCompare h a c \<le> 0)"
  proof -
    have total: "\<And>a b. localeCompare h a b \<le> 0 \<or> localeCompare h b a \<le> 0"
      using pre by blast
    have trans: "\<And>a b c. localeCompare h a b \<le> 0 \<Longrightarrow> localeCompare h b c \<le> 0 \<Longrightarrow>
                  localeCompare h a c \<le> 0"
      using pre by blast
    have 1: "sorted_wrt ?R ?TL"
      unfolding deriveTafsirLanguages_def by (rule sorted_sortByName [OF total trans])
    have 2: "sorted_wrt ?R ?L"
      unfolding languageEntries_def by (rule sorted_sortByName [OF total trans])
    have 3: "\<forall>k. filter (\<lambda>e. localeCompare h (l_name e) k \<le> 0 \<and> localeCompare h k (l_name e) \<le> 0) ?TL =
                 filter (\<lambda>e. localeCompare h (l_name e) k \<le> 0 \<and> localeCompare h k (l_name e) \<le> 0)
                   (map ?entry (uniq (map language_name tj)))"
      unfolding deriveTafsirLanguages_def by (simp add: filter_sortByName [OF trans])
    show ?thesis unfolding tl langs using 1 2 3 by simp
  qed
  have u: "\<forall>xs :: jsstring list. \<forall>x. uniq ([] :: jsstring list) = []
              \<and> uniq (xs @ [x]) = (if x \<in> set xs then uniq xs else uniq xs @ [x])"
    by (simp add: uniq_Nil uniq_snoc)
  have e: "take (Suc (length (saved s))) (saved (display ?E)) =
           saved s @ [(plugin_settings s)\<lparr>tafsirLanguage := tafsirLanguage (plugin_settings (display ?E))\<rparr>]"
    using tk psU lang' by simp
  have f: "tafsirEditions (display ?E) =
           tafsirsFor h (tafsirLanguage (plugin_settings (display ?E))) tj"
    using eds lang' by simp
  have g: "tafsirLanguage (plugin_settings (display ?E)) =
           (case tafsirLanguages (display ?E) of [] \<Rightarrow> js ''en'' | l # _ \<Rightarrow> l_code l)"
    using lang' tl by simp
  have d': "mset (tafsirLanguages (display ?E)) =
           image_mset
             (\<lambda>n. \<lparr>l_code = orElse (map_option l_code
                                       (find (\<lambda>l. toLowerCase h (l_name l) = toLowerCase h n)
                                          (languages (display ?E))))
                                    (toLowerCase h n),
                    l_name = toUpperCase h (take 1 n) @ drop 1 n\<rparr>)
             (mset_set (language_name ` set tj))"
    using d unfolding langs .
  have srt': "(\<forall>a b. localeCompare h a b \<le> 0 \<or> localeCompare h b a \<le> 0)
            \<and> (\<forall>a b c. localeCompare h a b \<le> 0 \<and> localeCompare h b c \<le> 0 \<longrightarrow>
                         localeCompare h a c \<le> 0) \<longrightarrow>
            sorted_wrt ?R (tafsirLanguages (display ?E))
          \<and> sorted_wrt ?R (languages (display ?E))
          \<and> (\<forall>k. filter (\<lambda>e. localeCompare h (l_name e) k \<le> 0 \<and> localeCompare h k (l_name e) \<le> 0)
                     (tafsirLanguages (display ?E)) =
                   filter (\<lambda>e. localeCompare h (l_name e) k \<le> 0 \<and> localeCompare h k (l_name e) \<le> 0)
                     (map (\<lambda>n. \<lparr>l_code = orElse (map_option l_code
                                       (find (\<lambda>l. toLowerCase h (l_name l) = toLowerCase h n)
                                          (languages (display ?E))))
                                    (toLowerCase h n),
                                 l_name = toUpperCase h (take 1 n) @ drop 1 n\<rparr>)
                        (uniq (map language_name tj))))"
    using srt unfolding langs by blast
  show ?thesis unfolding s'
    using a b tl c d' srt' u g e f by (intro conjI)
qed

text \<open>
  C7. In a refresh that found the busy flag clear and fetched all three catalogs, when no entry
  of the tafsir catalog has the language of the configured code (the code as it stands
  after reconciliation), the tafsir edition id and its display name both end as the
  empty string, and the last snapshot saved is these settings.
\<close>

theorem empty_tafsir_catalog_clears:
  assumes "\<not> isLoadingMetadata s"
    and "languageRes r = WellTyped lj"
    and "editionRes r (translationEditionUrl (language (plugin_settings s))) = WellTyped ej"
    and "tafsirRes r = WellTyped tj"
    and "tafsirsFor h (tafsirLanguage (plugin_settings (snd (fetchMetadata h r s)))) tj = []"
  shows "tafsir (plugin_settings (snd (fetchMetadata h r s))) = []
       \<and> tafsirName (plugin_settings (snd (fetchMetadata h r s))) = []
       \<and> tafsirEditions (snd (fetchMetadata h r s)) = []
       \<and> saved (snd (fetchMetadata h r s)) \<noteq> []
       \<and> last (saved (snd (fetchMetadata h r s))) = plugin_settings (snd (fetchMetadata h r s))"
proof -
  obtain T where run: "fetchMetadata h r s =
               (None, display ((setDefaultTafsir (filterTafsirs h tj (reconcileTafsirLanguage T)))
                                 \<lparr>isLoadingMetadata := False\<rparr>))"
    using fetchMetadata_ok [OF assms(1-4), of h] by blast
  let ?U = "reconcileTafsirLanguage T"
  let ?F = "filterTafsirs h tj ?U"
  let ?D = "setDefaultTafsir ?F"
  let ?E = "?D\<lparr>isLoadingMetadata := False\<rparr>"
  have s': "snd (fetchMetadata h r s) = display ?E" using run by simp
  have "tafsirLanguage (plugin_settings (display ?E)) = tafsirLanguage (plugin_settings ?U)"
    by (simp add: display_frame setDefaultTafsir_frame filterTafsirs_frame)
  then have "tafsirsFor h (tafsirLanguage (plugin_settings ?U)) tj = []"
    using assms(5) s' by simp
  then have empty: "tafsirEditions ?F = []" by (simp add: filterTafsirs_frame)
  note cleared = setDefaultTafsir_empty [OF empty]
  have edsE: "tafsirEditions ?E = []" using empty by (simp add: setDefaultTafsir_frame)
  have tE: "tafsir (plugin_settings ?E) = []" using cleared by simp
  have "display ?E = ?E\<lparr>displays := Suc (displays ?E)\<rparr>" by (rule display_empty [OF edsE tE])
  then have ps: "plugin_settings (display ?E) = plugin_settings ?D"
    and sv: "saved (display ?E) = saved ?D"
    and ed: "tafsirEditions (display ?E) = []"
    using edsE by simp_all
  show ?thesis unfolding s' using ps sv ed cleared by simp
qed

theorem tafsir_language_reconciled_witness:
  "map l_code (deriveTafsirLanguages exampleHost
                 (languageEntries exampleHost [js ''fr'', js ''en'']) [kathir, bayan, ahsanul]) =
     [js ''bengali'', js ''en'', js ''urdu'']
   \<and> tafsirLanguage (plugin_settings (newTab (DEFAULT_SETTINGS\<lparr>tafsirLanguage := js ''de''\<rparr>))) =
       js ''de''
   \<and> tafsirLanguage (plugin_settings (snd (fetchMetadata exampleHost (exampleCatalogs [kathir, bayan, ahsanul])
          (newTab (DEFAULT_SETTINGS\<lparr>tafsirLanguage := js ''de''\<rparr>))))) = js ''bengali''
   \<and> sorted_wrt (\<lambda>a b. unitCompare (l_name a) (l_name b) \<le> 0)
        (tafsirLanguages (snd (fetchMetadata exampleHost (exampleCatalogs [kathir, bayan, ahsanul])
          (newTab (DEFAULT_SETTINGS\<lparr>tafsirLanguage := js ''de''\<rparr>)))))
   \<and> map e_identifier
        (tafsirEditions (snd (fetchMetadata exampleHost (exampleCatalogs [kathir, bayan, ahsanul])
          (newTab (DEFAULT_SETTINGS\<lparr>tafsirLanguage := js ''de''\<rparr>))))) =
       [js ''bn-tafsir-ahsanul-bayaan'']"
proof -
  let ?r = "exampleCatalogs [kathir, bayan, ahsanul]"
  let ?s = "newTab (DEFAULT_SETTINGS\<lparr>tafsirLanguage := js ''de''\<rparr>)"
  let ?s' = "snd (fetchMetadata exampleHost ?r ?s)"
  let ?lj = "\<lparr>code = 200, status = js ''OK'', data = [js ''fr'', js ''en'']\<rparr>"
  let ?TL = "deriveTafsirLanguages exampleHost (languageEntries exampleHost [js ''fr'', js ''en''])
               [kathir, bayan, ahsanul]"
  have h1: "\<not> isLoadingMetadata ?s" by (simp add: newTab_def)
  have h2: "languageRes ?r = WellTyped ?lj" by (simp add: exampleCatalogs_def)
  have h3: "editionRes ?r (translationEditionUrl (language (plugin_settings ?s))) =
              WellTyped \<lparr>code = 200, status = js ''OK'', data = [itani]\<rparr>"
    by (simp add: exampleCatalogs_def newTab_def DEFAULT_SETTINGS_def)
  have h4: "tafsirRes ?r = WellTyped [kathir, bayan, ahsanul]" by (simp add: exampleCatalogs_def)
  have tl: "?TL = [\<lparr>l_code = js ''bengali'', l_name = js ''Bengali''\<rparr>,
                   \<lparr>l_code = js ''en'', l_name = js ''English''\<rparr>,
                   \<lparr>l_code = js ''urdu'', l_name = js ''Urdu''\<rparr>]"
    by code_simp
  have cur: "tafsirLanguage (plugin_settings ?s) = js ''de''" by (simp add: newTab_def)
  have dat: "data ?lj = [js ''fr'', js ''en'']" by simp
  have h5: "\<not> list_ex (\<lambda>l. l_code l = tafsirLanguage (plugin_settings ?s))
              (deriveTafsirLanguages exampleHost (languageEntries exampleHost (data ?lj))
                 [kathir, bayan, ahsanul])"
    unfolding cur dat tl by simp
  note inst = tafsir_language_reconciled
               [where h = exampleHost and r = "?r" and s = "?s" and tj = "[kathir, bayan, ahsanul]"
                  and lj = "?lj"
                  and ej = "\<lparr>code = 200, status = js ''OK'', data = [itani]\<rparr>",
                OF h1 h2 h3 h4 h5]
  have held: "tafsirLanguages ?s' =
      deriveTafsirLanguages exampleHost (languageEntries exampleHost (data ?lj)) [kathir, bayan, ahsanul]"
    by (rule inst [THEN conjunct2, THEN conjunct2, THEN conjunct1])
  have "tafsirLanguage (plugin_settings ?s') =
           (case tafsirLanguages ?s' of [] \<Rightarrow> js ''en'' | l # _ \<Rightarrow> l_code l)"
    by (rule inst [THEN conjunct2, THEN conjunct2, THEN conjunct2, THEN conjunct2,
                   THEN conjunct2, THEN conjunct2, THEN conjunct2, THEN conjunct1])
  then have en: "tafsirLanguage (plugin_settings ?s') = js ''bengali''"
    unfolding held dat tl by simp
  have pre: "(\<forall>a b. localeCompare exampleHost a b \<le> 0 \<or> localeCompare exampleHost b a \<le> 0)
            \<and> (\<forall>a b c. localeCompare exampleHost a b \<le> 0 \<and> localeCompare exampleHost b c \<le> 0 \<longrightarrow>
                         localeCompare exampleHost a c \<le> 0)"
    using unitCompare_total unitCompare_trans by (auto simp: exampleHost_def)
  have cmp: "localeCompare exampleHost = unitCompare" by (simp add: exampleHost_def)
  have "sorted_wrt (\<lambda>a b. localeCompare exampleHost (l_name a) (l_name b) \<le> 0) (tafsirLanguages ?s')"
    using inst [THEN conjunct2, THEN conjunct2, THEN conjunct2, THEN conjunct2,
                THEN conjunct2, THEN conjunct1, rule_format, OF pre]
    by (rule conjunct1)
  then have srt: "sorted_wrt (\<lambda>a b. unitCompare (l_name a) (l_name b) \<le> 0) (tafsirLanguages ?s')"
    unfolding cmp .
  have codes: "map l_code ?TL = [js ''bengali'', js ''en'', js ''urdu'']" unfolding tl by simp
  have "tafsirEditions ?s' =
          tafsirsFor exampleHost (tafsirLanguage (plugin_settings ?s')) [kathir, bayan, ahsanul]"
    by (rule inst [THEN conjunct2, THEN conjunct2, THEN conjunct2, THEN conjunct2,
                   THEN conjunct2, THEN conjunct2, THEN conjunct2, THEN conjunct2,
                   THEN conjunct2])
  moreover have "map e_identifier (tafsirsFor exampleHost (js ''bengali'') [kathir, bayan, ahsanul]) =
      [js ''bn-tafsir-ahsanul-bayaan'']"
    by code_simp
  ultimately have eds: "map e_identifier (tafsirEditions ?s') = [js ''bn-tafsir-ahsanul-bayaan'']"
    unfolding en by simp
  from codes cur en srt eds show ?thesis by (intro conjI)
qed

theorem empty_tafsir_catalog_clears_witness:
  "tafsirsFor exampleHost
     (tafsirLanguage (plugin_settings
        (snd (fetchMetadata exampleHost (exampleCatalogs []) (newTab DEFAULT_SETTINGS))))) [] = []
   \<and> tafsir (plugin_settings
        (snd (fetchMetadata exampleHost (exampleCatalogs []) (newTab DEFAULT_SETTINGS)))) = []
   \<and> tafsirName (plugin_settings
        (snd (fetchMetadata exampleHost (exampleCatalogs []) (newTab DEFAULT_SETTINGS)))) = []
   \<and> saved (snd (fetchMetadata exampleHost (exampleCatalogs []) (newTab DEFAULT_SETTINGS))) \<noteq> []
   \<and> tafsir (plugin_settings (newTab DEFAULT_SETTINGS)) = js ''en-tafisr-ibn-kathir''"
proof -
  let ?r = "exampleCatalogs []"
  let ?s = "newTab DEFAULT_SETTINGS"
  let ?s' = "snd (fetchMetadata exampleHost ?r ?s)"
  have h1: "\<not> isLoadingMetadata ?s" by (simp add: newTab_def)
  have h2: "languageRes ?r = WellTyped \<lparr>code = 200, status = js ''OK'', data = [js ''fr'', js ''en'']\<rparr>"
    by (simp add: exampleCatalogs_def)
  have h3: "editionRes ?r (translationEditionUrl (language (plugin_settings ?s))) =
              WellTyped \<lparr>code = 200, status = js ''OK'', data = [itani]\<rparr>"
    by (simp add: exampleCatalogs_def newTab_def DEFAULT_SETTINGS_def)
  have h4: "tafsirRes ?r = WellTyped []" by (simp add: exampleCatalogs_def)
  have h5: "tafsirsFor exampleHost (tafsirLanguage (plugin_settings ?s')) [] = []"
    by (simp only: tafsirsFor_def filter.simps list.map)
  note inst = empty_tafsir_catalog_clears
               [where h = exampleHost and r = "?r" and s = "?s" and tj = Nil
                  and lj = "\<lparr>code = 200, status = js ''OK'', data = [js ''fr'', js ''en'']\<rparr>"
                  and ej = "\<lparr>code = 200, status = js ''OK'', data = [itani]\<rparr>",
                OF h1 h2 h3 h4 h5]
  have a: "tafsir (plugin_settings ?s') = []" by (rule inst [THEN conjunct1])
  have b: "tafsirName (plugin_settings ?s') = []" by (rule inst [THEN conjunct2, THEN conjunct1])
  have c: "saved ?s' \<noteq> []"
    by (rule inst [THEN conjunct2, THEN conjunct2, THEN conjunct2, THEN conjunct1])
  have before: "tafsir (plugin_settings (newTab DEFAULT_SETTINGS)) = js ''en-tafisr-ibn-kathir''"
    by (simp add: newTab_def DEFAULT_SETTINGS_def)
  from h5 a b c before show ?thesis by (intro conjI)
qed

text \<open>
  The translation language dropdown: the language is set, the edition list is emptied
  and fetched again, the first fetched edition (if any) becomes the translation, then
  the settings are saved and the tab is drawn again.
\<close>

lemma onLanguageChange_ok:
  assumes "editionRes r (translationEditionUrl val) = WellTyped ej"
  shows "\<exists>t. onLanguageChange r val s = (None, display (saveSettings t))
           \<and> editions t = filter (\<lambda>e. format e = js ''text'' \<and> e_type e = js ''translation'') (data ej)
           \<and> saved t = saved s
           \<and> plugin_settings t =
               (plugin_settings s)
                 \<lparr>translation := (case editions t of
                                    [] \<Rightarrow> translation (plugin_settings s) | e # _ \<Rightarrow> e_identifier e),
                  language := val\<rparr>"
proof -
  let ?s0 = "s\<lparr>plugin_settings := (plugin_settings s)\<lparr>language := val\<rparr>, editions := []\<rparr>"
  let ?eds = "filter (\<lambda>e. format e = js ''text'' \<and> e_type e = js ''translation'') (data ej)"
  let ?s1 = "(request (translationEditionUrl val) ?s0)\<lparr>editions := ?eds\<rparr>"
  have e: "editionRes r (translationEditionUrl (language (plugin_settings ?s0))) = WellTyped ej"
    using assms by simp
  have f: "fetchTranslationEditions r ?s0 = (None, ?s1)"
    using fetchTranslationEditions_ok [OF e] by simp
  show ?thesis
  proof (cases ?eds)
    case Nil
    have "onLanguageChange r val s = (None, display (saveSettings ?s1))"
      unfolding onLanguageChange_def Let_def f using Nil by simp
    moreover have "editions ?s1 = ?eds" "saved ?s1 = saved s"
      "plugin_settings ?s1 =
         (plugin_settings s)
           \<lparr>translation := (case editions ?s1 of
                              [] \<Rightarrow> translation (plugin_settings s) | e # _ \<Rightarrow> e_identifier e),
            language := val\<rparr>"
      using Nil by (simp_all add: request_def)
    ultimately show ?thesis by blast
  next
    case (Cons x xs)
    let ?s2 = "?s1\<lparr>plugin_settings := (plugin_settings ?s1)\<lparr>translation := e_identifier x\<rparr>\<rparr>"
    have "onLanguageChange r val s = (None, display (saveSettings ?s2))"
      unfolding onLanguageChange_def Let_def f using Cons by simp
    moreover have "editions ?s2 = ?eds" "saved ?s2 = saved s"
      "plugin_settings ?s2 =
         (plugin_settings s)
           \<lparr>translation := (case editions ?s2 of
                              [] \<Rightarrow> translation (plugin_settings s) | e # _ \<Rightarrow> e_identifier e),
            language := val\<rparr>"
      using Cons by (simp_all add: request_def)
    ultimately show ?thesis by blast
  qed
qed

lemma display_after_save:
  "saved (display (saveSettings t)) \<noteq> []
   \<and> take (Suc (length (saved t))) (saved (display (saveSettings t))) = saved t @ [plugin_settings t]
   \<and> language (last (saved (display (saveSettings t)))) = language (plugin_settings t)
   \<and> translation (last (saved (display (saveSettings t)))) = translation (plugin_settings t)"
  using display_saved_cases [of "saveSettings t"] display_frame [of "saveSettings t"]
  by (auto simp: saveSettings_def)

lemma onLanguageChange_summary:
  assumes "editionRes r (translationEditionUrl val) = WellTyped ej"
  shows "fst (onLanguageChange r val s) = None
     \<and> editions (snd (onLanguageChange r val s)) = filter (\<lambda>e. format e = js ''text'' \<and> e_type e = js ''translation'') (data ej)
     \<and> language (plugin_settings (snd (onLanguageChange r val s))) = val
     \<and> translation (plugin_settings (snd (onLanguageChange r val s))) =
         (case editions (snd (onLanguageChange r val s)) of
            [] \<Rightarrow> translation (plugin_settings s) | e # _ \<Rightarrow> e_identifier e)
     \<and> take (Suc (length (saved s))) (saved (snd (onLanguageChange r val s))) =
         saved s @ [(plugin_settings s)
                      \<lparr>translation := translation (plugin_settings (snd (onLanguageChange r val s))), language := val\<rparr>]
     \<and> saved (snd (onLanguageChange r val s)) \<noteq> []
     \<and> language (last (saved (snd (onLanguageChange r val s)))) = val
     \<and> translation (last (saved (snd (onLanguageChange r val s)))) =
         translation (plugin_settings (snd (onLanguageChange r val s)))"
proof -
  obtain t where run: "onLanguageChange r val s = (None, display (saveSettings t))"
    and t: "editions t = filter (\<lambda>e. format e = js ''text'' \<and> e_type e = js ''translation'') (data ej)"
      "saved t = saved s"
      "plugin_settings t =
               (plugin_settings s)
                 \<lparr>translation := (case editions t of
                                    [] \<Rightarrow> translation (plugin_settings s) | e # _ \<Rightarrow> e_identifier e),
                  language := val\<rparr>"
    using onLanguageChange_ok [OF assms, of s] by blast
  have tr: "translation (plugin_settings t) =
      (case editions t of [] \<Rightarrow> translation (plugin_settings s) | e # _ \<Rightarrow> e_identifier e)"
    and la: "language (plugin_settings t) = val"
    by (simp_all add: t(3))
  have fr: "editions (display (saveSettings t)) = editions t"
    "language (plugin_settings (display (saveSettings t))) = language (plugin_settings t)"
    "translation (plugin_settings (display (saveSettings t))) = translation (plugin_settings t)"
    using display_frame [of "saveSettings t"] by (simp_all add: saveSettings_def)
  note sv = display_after_save [of t]
  have snap: "plugin_settings t =
      (plugin_settings s)\<lparr>translation := translation (plugin_settings t), language := val\<rparr>"
    using t(3) tr by simp
  have tk: "take (Suc (length (saved s))) (saved (display (saveSettings t))) =
      saved s @ [(plugin_settings s)\<lparr>translation := translation (plugin_settings t), language := val\<rparr>]"
    using sv t(2) snap by simp
  show ?thesis unfolding run using fr sv t(1) tr la tk by simp
qed

text \<open>
  The same handler when the edition fetch rejects: the new language is kept and saved
  with the edition id as it was, and a notice is shown.
\<close>

lemma onLanguageChange_failed:
  assumes "editionRes r (translationEditionUrl val) = Unreachable"
  shows "fst (onLanguageChange r val s) = None
     \<and> isLoadingMetadata (snd (onLanguageChange r val s)) = isLoadingMetadata s
     \<and> language (plugin_settings (snd (onLanguageChange r val s))) = val
     \<and> translation (plugin_settings (snd (onLanguageChange r val s))) = translation (plugin_settings s)
     \<and> saved (snd (onLanguageChange r val s)) \<noteq> []
     \<and> language (last (saved (snd (onLanguageChange r val s)))) = val
     \<and> translation (last (saved (snd (onLanguageChange r val s)))) = translation (plugin_settings s)"
proof -
  let ?s0 = "s\<lparr>plugin_settings := (plugin_settings s)\<lparr>language := val\<rparr>, editions := []\<rparr>"
  let ?t = "notify ''Failed to auto-select translation. Check your internet connection.''
              (notify ''Failed to fetch translations. Check your internet connection.''
                 (request (translationEditionUrl val) ?s0))"
  have "fetchTranslationEditions r ?s0 =
          (Some Rejection, notify ''Failed to fetch translations. Check your internet connection.''
                             (request (translationEditionUrl val) ?s0))"
    using assms by (simp add: fetchTranslationEditions_def Let_def)
  then have run: "onLanguageChange r val s = (None, display (saveSettings ?t))"
    by (simp add: onLanguageChange_def Let_def)
  have t: "language (plugin_settings ?t) = val"
    "translation (plugin_settings ?t) = translation (plugin_settings s)"
    "isLoadingMetadata ?t = isLoadingMetadata s"
    by (simp_all add: notify_def request_def)
  have fr: "isLoadingMetadata (display (saveSettings ?t)) = isLoadingMetadata ?t"
    "language (plugin_settings (display (saveSettings ?t))) = language (plugin_settings ?t)"
    "translation (plugin_settings (display (saveSettings ?t))) = translation (plugin_settings ?t)"
    using display_frame [of "saveSettings ?t"] by (simp_all add: saveSettings_def)
  note sv = display_after_save [of ?t]
  show ?thesis unfolding run using fr sv t by simp
qed

text \<open>
  The two last steps of \<open>fetchAndProcessTafsirs\<close> followed by \<open>display\<close>, on any state
  \<open>F\<close> with the filtered catalog in place. An empty catalog clears id and name and
  saves. With a non-empty catalog the id ends as one of the catalog: an id that is
  empty, not listed, or listed with no name to read in the dropdown gives way to the
  id and name of the first entry, and this is saved; any other id stays, with its name
  looked up again.
\<close>

lemma tail_result:
  "(case tafsirEditions F of
          [] \<Rightarrow>
            plugin_settings (display ((setDefaultTafsir F)\<lparr>isLoadingMetadata := b\<rparr>)) = (plugin_settings F)\<lparr>tafsir := [], tafsirName := []\<rparr>
          \<and> saved (display ((setDefaultTafsir F)\<lparr>isLoadingMetadata := b\<rparr>)) \<noteq> []
          \<and> last (saved (display ((setDefaultTafsir F)\<lparr>isLoadingMetadata := b\<rparr>))) = plugin_settings (display ((setDefaultTafsir F)\<lparr>isLoadingMetadata := b\<rparr>))
        | e # _ \<Rightarrow>
            list_ex (\<lambda>t. e_identifier t = tafsir (plugin_settings (display ((setDefaultTafsir F)\<lparr>isLoadingMetadata := b\<rparr>)))) (tafsirEditions F)
          \<and> (if unlisted (tafsir (plugin_settings F)) (tafsirEditions F) \<or> \<not> slotTruthy (options (tafsirEditions F) (tafsir (plugin_settings F)))
             then plugin_settings (display ((setDefaultTafsir F)\<lparr>isLoadingMetadata := b\<rparr>)) =
                    (plugin_settings F)\<lparr>tafsir := e_identifier e, tafsirName := name e\<rparr>
                \<and> saved (display ((setDefaultTafsir F)\<lparr>isLoadingMetadata := b\<rparr>)) \<noteq> []
                \<and> last (saved (display ((setDefaultTafsir F)\<lparr>isLoadingMetadata := b\<rparr>))) = plugin_settings (display ((setDefaultTafsir F)\<lparr>isLoadingMetadata := b\<rparr>))
             else plugin_settings (display ((setDefaultTafsir F)\<lparr>isLoadingMetadata := b\<rparr>)) =
                    (plugin_settings F)\<lparr>tafsirName :=
                              orElse (map_option name
                                        (find (\<lambda>t. e_identifier t = tafsir (plugin_settings F)) (tafsirEditions F)))
                                     (tafsir (plugin_settings F))\<rparr>))"
  by (cases "tafsirEditions F")
     (auto simp: display_def setDefaultTafsir_def saveSettings_def unlisted_def Let_def)

lemma setDefaultTafsir_substitutes:
  assumes "tafsirEditions F = e # es"
    and "unlisted (tafsir (plugin_settings F)) (tafsirEditions F)"
  shows "plugin_settings (setDefaultTafsir F) =
          (plugin_settings F)\<lparr>tafsir := e_identifier e, tafsirName := name e\<rparr>
      \<and> saved (setDefaultTafsir F) = saved F @ [plugin_settings (setDefaultTafsir F)]"
  using assms by (auto simp: setDefaultTafsir_def saveSettings_def unlisted_def Let_def)

lemma reconcileTafsirLanguage_settings:
  "plugin_settings (reconcileTafsirLanguage T) =
     (plugin_settings T)
       \<lparr>tafsirLanguage := reconciledCode (tafsirLanguages T) (tafsirLanguage (plugin_settings T))\<rparr>"
  by (simp add: reconcileTafsirLanguage_def reconciledCode_def saveSettings_def Let_def)

lemma refresh_state:
  assumes "\<not> isLoadingMetadata s"
    and "languageRes r = WellTyped lj"
    and "editionRes r (translationEditionUrl (language (plugin_settings s))) = WellTyped ej"
    and "tafsirRes r = WellTyped tj"
  shows "\<not> isLoadingMetadata (snd (fetchMetadata h r s))
     \<and> languages (snd (fetchMetadata h r s)) = languageEntries h (data lj)
     \<and> tafsirLanguages (snd (fetchMetadata h r s)) =
         deriveTafsirLanguages h (languageEntries h (data lj)) tj"
proof -
  obtain T where run: "fetchMetadata h r s =
               (None, display ((setDefaultTafsir (filterTafsirs h tj (reconcileTafsirLanguage T)))
                                 \<lparr>isLoadingMetadata := False\<rparr>))"
    and T: "languages T = languageEntries h (data lj)"
      "tafsirLanguages T = deriveTafsirLanguages h (languages T) tj"
    using fetchMetadata_ok [OF assms, of h] by blast
  show ?thesis unfolding run using T
    by (simp add: display_frame setDefaultTafsir_frame filterTafsirs_frame
          reconcileTafsirLanguage_frame)
qed

lemma refresh_summary:
  assumes "\<not> isLoadingMetadata s"
    and "languageRes r = WellTyped lj"
    and "editionRes r (translationEditionUrl (language (plugin_settings s))) = WellTyped ej"
    and "tafsirRes r = WellTyped tj"
  shows "fst (fetchMetadata h r s) = None
     \<and> translation (plugin_settings (snd (fetchMetadata h r s))) = translation (plugin_settings s)
     \<and> language (plugin_settings (snd (fetchMetadata h r s))) = language (plugin_settings s)
     \<and> editions (snd (fetchMetadata h r s)) = filter (\<lambda>e. format e = js ''text'' \<and> e_type e = js ''translation'') (data ej)
     \<and> tafsirLanguage (plugin_settings (snd (fetchMetadata h r s))) =
         reconciledCode (deriveTafsirLanguages h (languageEntries h (data lj)) tj) (tafsirLanguage (plugin_settings s))
     \<and> tafsirEditions (snd (fetchMetadata h r s)) =
         tafsirsFor h (reconciledCode (deriveTafsirLanguages h (languageEntries h (data lj)) tj) (tafsirLanguage (plugin_settings s))) tj
     \<and> (case tafsirsFor h (reconciledCode (deriveTafsirLanguages h (languageEntries h (data lj)) tj) (tafsirLanguage (plugin_settings s))) tj of
          [] \<Rightarrow>
            plugin_settings (snd (fetchMetadata h r s)) = ((plugin_settings s)\<lparr>tafsirLanguage := reconciledCode (deriveTafsirLanguages h (languageEntries h (data lj)) tj) (tafsirLanguage (plugin_settings s))\<rparr>)\<lparr>tafsir := [], tafsirName := []\<rparr>
          \<and> saved (snd (fetchMetadata h r s)) \<noteq> []
          \<and> last (saved (snd (fetchMetadata h r s))) = plugin_settings (snd (fetchMetadata h r s))
        | e # _ \<Rightarrow>
            list_ex (\<lambda>t. e_identifier t = tafsir (plugin_settings (snd (fetchMetadata h r s)))) (tafsirsFor h (reconciledCode (deriveTafsirLanguages h (languageEntries h (data lj)) tj) (tafsirLanguage (plugin_settings s))) tj)
          \<and> (if unlisted (tafsir (plugin_settings s)) (tafsirsFor h (reconciledCode (deriveTafsirLanguages h (languageEntries h (data lj)) tj) (tafsirLanguage (plugin_settings s))) tj) \<or> \<not> slotTruthy (options (tafsirsFor h (reconciledCode (deriveTafsirLanguages h (languageEntries h (data lj)) tj) (tafsirLanguage (plugin_settings s))) tj) (tafsir (plugin_settings s)))
             then plugin_settings (snd (fetchMetadata h r s)) =
                    ((plugin_settings s)\<lparr>tafsirLanguage := reconciledCode (deriveTafsirLanguages h (languageEntries h (data lj)) tj) (tafsirLanguage (plugin_settings s))\<rparr>)\<lparr>tafsir := e_identifier e, tafsirName := name e\<rparr>
                \<and> saved (snd (fetchMetadata h r s)) \<noteq> []
                \<and> last (saved (snd (fetchMetadata h r s))) = plugin_settings (snd (fetchMetadata h r s))
             else plugin_settings (snd (fetchMetadata h r s)) =
                    ((plugin_settings s)\<lparr>tafsirLanguage := reconciledCode (deriveTafsirLanguages h (languageEntries h (data lj)) tj) (tafsirLanguage (plugin_settings s))\<rparr>)\<lparr>tafsirName :=
                              orElse (map_option name
                                        (find (\<lambda>t. e_identifier t = tafsir (plugin_settings s)) (tafsirsFor h (reconciledCode (deriveTafsirLanguages h (languageEntries h (data lj)) tj) (tafsirLanguage (plugin_settings s))) tj)))
                                     (tafsir (plugin_settings s))\<rparr>))"
proof -
  obtain T where run: "fetchMetadata h r s =
               (None, display ((setDefaultTafsir (filterTafsirs h tj (reconcileTafsirLanguage T)))
                                 \<lparr>isLoadingMetadata := False\<rparr>))"
    and T: "plugin_settings T = plugin_settings s"
      "languages T = languageEntries h (data lj)"
      "tafsirLanguages T = deriveTafsirLanguages h (languages T) tj"
      "editions T = filter (\<lambda>e. format e = js ''text'' \<and> e_type e = js ''translation'') (data ej)"
    using fetchMetadata_ok [OF assms, of h] by blast
  let ?U = "reconcileTafsirLanguage T"
  let ?F = "filterTafsirs h tj ?U"
  let ?Z = "display ((setDefaultTafsir ?F)\<lparr>isLoadingMetadata := False\<rparr>)"
  let ?L = "reconciledCode (deriveTafsirLanguages h (languageEntries h (data lj)) tj)
              (tafsirLanguage (plugin_settings s))"
  have s': "snd (fetchMetadata h r s) = ?Z" using run by simp
  have psU: "plugin_settings ?U = (plugin_settings s)\<lparr>tafsirLanguage := ?L\<rparr>"
    using T(1,2,3) by (simp add: reconcileTafsirLanguage_settings)
  have psF: "plugin_settings ?F = (plugin_settings s)\<lparr>tafsirLanguage := ?L\<rparr>"
    using psU by (simp add: filterTafsirs_frame)
  have edsF: "tafsirEditions ?F = tafsirsFor h ?L tj"
    using psU by (simp add: filterTafsirs_frame)
  have t0: "tafsir ((plugin_settings s)\<lparr>tafsirLanguage := ?L\<rparr>) = tafsir (plugin_settings s)"
    by simp
  have 1: "fst (fetchMetadata h r s) = None" using run by simp
  have 2: "translation (plugin_settings ?Z) = translation (plugin_settings s)"
    "language (plugin_settings ?Z) = language (plugin_settings s)"
    "editions ?Z = filter (\<lambda>e. format e = js ''text'' \<and> e_type e = js ''translation'') (data ej)"
    using T(1,4)
    by (simp_all add: display_frame setDefaultTafsir_frame filterTafsirs_frame
          reconcileTafsirLanguage_frame)
  have 3: "tafsirLanguage (plugin_settings ?Z) = ?L"
    using psF by (simp add: display_frame setDefaultTafsir_frame)
  have 4: "tafsirEditions ?Z = tafsirsFor h ?L tj"
    using edsF by (simp add: display_frame setDefaultTafsir_frame)
  have 5: "(case tafsirsFor h ?L tj of
          [] \<Rightarrow>
            plugin_settings (?Z) = ((plugin_settings s)\<lparr>tafsirLanguage := ?L\<rparr>)\<lparr>tafsir := [], tafsirName := []\<rparr>
          \<and> saved (?Z) \<noteq> []
          \<and> last (saved (?Z)) = plugin_settings (?Z)
        | e # _ \<Rightarrow>
            list_ex (\<lambda>t. e_identifier t = tafsir (plugin_settings (?Z))) (tafsirsFor h ?L tj)
          \<and> (if unlisted (tafsir (plugin_settings s)) (tafsirsFor h ?L tj) \<or> \<not> slotTruthy (options (tafsirsFor h ?L tj) (tafsir (plugin_settings s)))
             then plugin_settings (?Z) =
                    ((plugin_settings s)\<lparr>tafsirLanguage := ?L\<rparr>)\<lparr>tafsir := e_identifier e, tafsirName := name e\<rparr>
                \<and> saved (?Z) \<noteq> []
                \<and> last (saved (?Z)) = plugin_settings (?Z)
             else plugin_settings (?Z) =
                    ((plugin_settings s)\<lparr>tafsirLanguage := ?L\<rparr>)\<lparr>tafsirName :=
                              orElse (map_option name
                                        (find (\<lambda>t. e_identifier t = tafsir (plugin_settings s)) (tafsirsFor h ?L tj)))
                                     (tafsir (plugin_settings s))\<rparr>))"
    using tail_result [where F = "?F" and b = False] unfolding edsF psF t0 .
  show ?thesis unfolding s' using 1 2 3 4 5 by (intro conjI)
qed

text \<open>
  The tafsir language dropdown: the language is set and saved, the tafsir catalog is
  fetched and processed again, and the tab is drawn again. A failed fetch is not caught
  here: the handler's promise rejects.
\<close>

lemma onTafsirLanguageChange_summary:
  assumes "tafsirRes r = WellTyped tj"
  shows "fst (onTafsirLanguageChange h r val s) = None
     \<and> take (Suc (length (saved s))) (saved (snd (onTafsirLanguageChange h r val s))) =
         saved s @ [(plugin_settings s)\<lparr>tafsirLanguage := val\<rparr>]
     \<and> tafsirLanguage (plugin_settings (snd (onTafsirLanguageChange h r val s))) =
         reconciledCode (deriveTafsirLanguages h (languages s) tj) val
     \<and> tafsirEditions (snd (onTafsirLanguageChange h r val s)) =
         tafsirsFor h (reconciledCode (deriveTafsirLanguages h (languages s) tj) val) tj
     \<and> (case tafsirsFor h (reconciledCode (deriveTafsirLanguages h (languages s) tj) val) tj of
          [] \<Rightarrow>
            plugin_settings (snd (onTafsirLanguageChange h r val s)) = ((plugin_settings s)\<lparr>tafsirLanguage := reconciledCode (deriveTafsirLanguages h (languages s) tj) val\<rparr>)\<lparr>tafsir := [], tafsirName := []\<rparr>
          \<and> saved (snd (onTafsirLanguageChange h r val s)) \<noteq> []
          \<and> last (saved (snd (onTafsirLanguageChange h r val s))) = plugin_settings (snd (onTafsirLanguageChange h r val s))
        | e # _ \<Rightarrow>
            list_ex (\<lambda>t. e_identifier t = tafsir (plugin_settings (snd (onTafsirLanguageChange h r val s)))) (tafsirsFor h (reconciledCode (deriveTafsirLanguages h (languages s) tj) val) tj)
          \<and> (if unlisted (tafsir (plugin_settings s)) (tafsirsFor h (reconciledCode (deriveTafsirLanguages h (languages s) tj) val) tj) \<or> \<not> slotTruthy (options (tafsirsFor h (reconciledCode (deriveTafsirLanguages h (languages s) tj) val) tj) (tafsir (plugin_settings s)))
             then plugin_settings (snd (onTafsirLanguageChange h r val s)) =
                    ((plugin_settings s)\<lparr>tafsirLanguage := reconciledCode (deriveTafsirLanguages h (languages s) tj) val\<rparr>)\<lparr>tafsir := e_identifier e, tafsirName := name e\<rparr>
                \<and> saved (snd (onTafsirLanguageChange h r val s)) \<noteq> []
                \<and> last (saved (snd (onTafsirLanguageChange h r val s))) = plugin_settings (snd (onTafsirLanguageChange h r val s))
             else plugin_settings (snd (onTafsirLanguageChange h r val s)) =
                    ((plugin_settings s)\<lparr>tafsirLanguage := reconciledCode (deriveTafsirLanguages h (languages s) tj) val\<rparr>)\<lparr>tafsirName :=
                              orElse (map_option name
                                        (find (\<lambda>t. e_identifier t = tafsir (plugin_settings s)) (tafsirsFor h (reconciledCode (deriveTafsirLanguages h (languages s) tj) val) tj)))
                                     (tafsir (plugin_settings s))\<rparr>))"
proof -
  let ?s0 = "saveSettings (s\<lparr>plugin_settings := (plugin_settings s)\<lparr>tafsirLanguage := val\<rparr>\<rparr>)"
  let ?T = "(request tafsirApiUrl ?s0)\<lparr>tafsirLanguages := deriveTafsirLanguages h (languages ?s0) tj\<rparr>"
  let ?U = "reconcileTafsirLanguage ?T"
  let ?F = "filterTafsirs h tj ?U"
  let ?D = "setDefaultTafsir ?F"
  let ?Z = "display (?D\<lparr>isLoadingMetadata := isLoadingMetadata ?D\<rparr>)"
  let ?L = "reconciledCode (deriveTafsirLanguages h (languages s) tj) val"
  have D: "?D\<lparr>isLoadingMetadata := isLoadingMetadata ?D\<rparr> = ?D" by simp
  have run: "onTafsirLanguageChange h r val s = (None, ?Z)"
    using fetchAndProcessTafsirs_ok [OF assms, of h ?s0]
    by (simp add: onTafsirLanguageChange_def Let_def)
  have s': "snd (onTafsirLanguageChange h r val s) = ?Z" using run by simp
  have psU: "plugin_settings ?U = (plugin_settings s)\<lparr>tafsirLanguage := ?L\<rparr>"
    by (simp add: reconcileTafsirLanguage_settings request_def saveSettings_def)
  have psF: "plugin_settings ?F = (plugin_settings s)\<lparr>tafsirLanguage := ?L\<rparr>"
    using psU by (simp add: filterTafsirs_frame)
  have edsF: "tafsirEditions ?F = tafsirsFor h ?L tj"
    using psU by (simp add: filterTafsirs_frame)
  have sv0: "saved ?T = saved s @ [(plugin_settings s)\<lparr>tafsirLanguage := val\<rparr>]"
    by (simp add: request_def saveSettings_def)
  have svU: "\<exists>xs. saved ?U = saved ?T @ xs"
    by (simp add: reconcileTafsirLanguage_def saveSettings_def Let_def)
  have svD: "\<exists>xs. saved ?D = saved ?U @ xs"
    using setDefaultTafsir_saved_cases [of ?F] by (auto simp: filterTafsirs_frame)
  have svZ: "\<exists>ys. saved ?Z = saved ?D @ ys"
    unfolding D using display_saved_cases [of ?D] by auto
  have t0: "tafsir ((plugin_settings s)\<lparr>tafsirLanguage := ?L\<rparr>) = tafsir (plugin_settings s)"
    by simp
  have 1: "fst (onTafsirLanguageChange h r val s) = None" using run by simp
  have 2: "take (Suc (length (saved s))) (saved ?Z) =
         saved s @ [(plugin_settings s)\<lparr>tafsirLanguage := val\<rparr>]"
    using sv0 svU svD svZ by auto
  have 3: "tafsirLanguage (plugin_settings ?Z) = ?L"
    unfolding D using psF by (simp add: display_frame setDefaultTafsir_frame)
  have 4: "tafsirEditions ?Z = tafsirsFor h ?L tj"
    unfolding D using edsF by (simp add: display_frame setDefaultTafsir_frame)
  have 5: "(case tafsirsFor h ?L tj of
          [] \<Rightarrow>
            plugin_settings (?Z) = ((plugin_settings s)\<lparr>tafsirLanguage := ?L\<rparr>)\<lparr>tafsir := [], tafsirName := []\<rparr>
          \<and> saved (?Z) \<noteq> []
          \<and> last (saved (?Z)) = plugin_settings (?Z)
        | e # _ \<Rightarrow>
            list_ex (\<lambda>t. e_identifier t = tafsir (plugin_settings (?Z))) (tafsirsFor h ?L tj)
          \<and> (if unlisted (tafsir (plugin_settings s)) (tafsirsFor h ?L tj) \<or> \<not> slotTruthy (options (tafsirsFor h ?L tj) (tafsir (plugin_settings s)))
             then plugin_settings (?Z) =
                    ((plugin_settings s)\<lparr>tafsirLanguage := ?L\<rparr>)\<lparr>tafsir := e_identifier e, tafsirName := name e\<rparr>
                \<and> saved (?Z) \<noteq> []
                \<and> last (saved (?Z)) = plugin_settings (?Z)
             else plugin_settings (?Z) =
                    ((plugin_settings s)\<lparr>tafsirLanguage := ?L\<rparr>)\<lparr>tafsirName :=
                              orElse (map_option name
                                        (find (\<lambda>t. e_identifier t = tafsir (plugin_settings s)) (tafsirsFor h ?L tj)))
                                     (tafsir (plugin_settings s))\<rparr>))"
    using tail_result [where F = "?F" and b = "isLoadingMetadata ?D"] unfolding edsF psF t0 .
  show ?thesis unfolding s' using 1 2 3 4 5 by (intro conjI)
qed

text \<open>
  C5, as the code has it. For the tafsir edition the resolver repairs: the step that
  sets the default, on a non-empty filtered catalog and an id that is empty or not
  listed, puts the id and the name of the catalog's first entry and saves at once. A
  refresh that found the busy flag clear and fetched all three catalogs resolves; the
  tafsir catalog it keeps is the fetched one filtered by the reconciled tafsir
  language; when that catalog is non-empty the id ends as one of its identifiers: an
  id that was empty, not listed, or listed with no name to read gives way to the id
  and name of the first entry, the final settings being the old ones with the
  reconciled language and that id and name, and these are the last snapshot saved;
  any other id stays. When the catalog is empty, id and name end empty and saved. A
  switch of the tafsir language whose catalog fetch is well typed saves the chosen
  language first and then does the same. For the translation edition there is no such
  repair on a refresh: it leaves the translation language and edition id as they
  were, whether or not the id is in the fetched edition catalog. A switch of the
  translation language whose edition fetch is well typed resolves, keeps the fetched
  textual translations as the catalog, makes the first of them the translation id
  (the old id stays when there is none), and the first snapshot it saves is the old
  settings with that language and id. When that fetch rejects, the switch still
  resolves, and the new language is saved with the old id.
\<close>

theorem preferences_repair:
  "(\<forall>(F::tab) e es.
        tafsirEditions F = e # es \<and> unlisted (tafsir (plugin_settings F)) (tafsirEditions F) \<longrightarrow>
        plugin_settings (setDefaultTafsir F) =
          (plugin_settings F)\<lparr>tafsir := e_identifier e, tafsirName := name e\<rparr>
      \<and> saved (setDefaultTafsir F) = saved F @ [plugin_settings (setDefaultTafsir F)])
   \<and> (\<not> isLoadingMetadata s \<and> languageRes r = WellTyped lj
     \<and> editionRes r (translationEditionUrl (language (plugin_settings s))) = WellTyped ej
     \<and> tafsirRes r = WellTyped tj \<longrightarrow>
       (let s' = snd (fetchMetadata h r s);
            L = reconciledCode (deriveTafsirLanguages h (languageEntries h (data lj)) tj)
                  (tafsirLanguage (plugin_settings s));
            C = tafsirsFor h L tj;
            t0 = tafsir (plugin_settings s);
            ps = (plugin_settings s)\<lparr>tafsirLanguage := L\<rparr>
        in fst (fetchMetadata h r s) = None
         \<and> translation (plugin_settings s') = translation (plugin_settings s)
         \<and> language (plugin_settings s') = language (plugin_settings s)
         \<and> editions s' = filter (\<lambda>e. format e = js ''text'' \<and> e_type e = js ''translation'') (data ej)
         \<and> tafsirLanguage (plugin_settings s') = L
         \<and> tafsirEditions s' = C
         \<and> (case C of
                [] \<Rightarrow>
                  plugin_settings s' = ps\<lparr>tafsir := [], tafsirName := []\<rparr>
                \<and> saved s' \<noteq> []
                \<and> last (saved s') = plugin_settings s'
              | e # _ \<Rightarrow>
                  list_ex (\<lambda>t. e_identifier t = tafsir (plugin_settings s')) C
                \<and> (if unlisted t0 C \<or> \<not> slotTruthy (options C t0)
                   then plugin_settings s' = ps\<lparr>tafsir := e_identifier e, tafsirName := name e\<rparr>
                      \<and> saved s' \<noteq> []
                      \<and> last (saved s') = plugin_settings s'
                   else plugin_settings s' =
                          ps\<lparr>tafsirName :=
                                 orElse (map_option name (find (\<lambda>t. e_identifier t = t0) C))
                                        t0\<rparr>))))
   \<and> (tafsirRes r1 = WellTyped tj1 \<longrightarrow>
       (let s' = snd (onTafsirLanguageChange h r1 val1 s1);
            L = reconciledCode (deriveTafsirLanguages h (languages s1) tj1) val1;
            C = tafsirsFor h L tj1;
            t0 = tafsir (plugin_settings s1);
            ps = (plugin_settings s1)\<lparr>tafsirLanguage := L\<rparr>
        in fst (onTafsirLanguageChange h r1 val1 s1) = None
         \<and> take (Suc (length (saved s1))) (saved s') =
             saved s1 @ [(plugin_settings s1)\<lparr>tafsirLanguage := val1\<rparr>]
         \<and> tafsirLanguage (plugin_settings s') = L
         \<and> tafsirEditions s' = C
         \<and> (case C of
                [] \<Rightarrow>
                  plugin_settings s' = ps\<lparr>tafsir := [], tafsirName := []\<rparr>
                \<and> saved s' \<noteq> []
                \<and> last (saved s') = plugin_settings s'
              | e # _ \<Rightarrow>
                  list_ex (\<lambda>t. e_identifier t = tafsir (plugin_settings s')) C
                \<and> (if unlisted t0 C \<or> \<not> slotTruthy (options C t0)
                   then plugin_settings s' = ps\<lparr>tafsir := e_identifier e, tafsirName := name e\<rparr>
                      \<and> saved s' \<noteq> []
                      \<and> last (saved s') = plugin_settings s'
                   else plugin_settings s' =
                          ps\<lparr>tafsirName :=
                                 orElse (map_option name (find (\<lambda>t. e_identifier t = t0) C))
                                        t0\<rparr>))))
   \<and> (editionRes r2 (translationEditionUrl val2) = WellTyped ej2 \<longrightarrow>
       (let s' = snd (onLanguageChange r2 val2 s2)
        in fst (onLanguageChange r2 val2 s2) = None
         \<and> editions s' = filter (\<lambda>e. format e = js ''text'' \<and> e_type e = js ''translation'') (data ej2)
         \<and> language (plugin_settings s') = val2
         \<and> translation (plugin_settings s') =
             (case editions s' of
                [] \<Rightarrow> translation (plugin_settings s2) | e # _ \<Rightarrow> e_identifier e)
         \<and> take (Suc (length (saved s2))) (saved s') =
             saved s2 @ [(plugin_settings s2)
                          \<lparr>translation := translation (plugin_settings s'), language := val2\<rparr>]
         \<and> saved s' \<noteq> []
         \<and> language (last (saved s')) = val2
         \<and> translation (last (saved s')) = translation (plugin_settings s')))
   \<and> (editionRes r3 (translationEditionUrl val3) = Unreachable \<longrightarrow>
       (let s' = snd (onLanguageChange r3 val3 s3)
        in fst (onLanguageChange r3 val3 s3) = None
         \<and> isLoadingMetadata s' = isLoadingMetadata s3
         \<and> language (plugin_settings s') = val3
         \<and> translation (plugin_settings s') = translation (plugin_settings s3)
         \<and> saved s' \<noteq> []
         \<and> language (last (saved s')) = val3
         \<and> translation (last (saved s')) = translation (plugin_settings s3)))"
  unfolding Let_def
  apply (intro conjI allI; rule impI)
  subgoal for F e es using setDefaultTafsir_substitutes [of F e es] by blast
  subgoal by (elim conjE, rule refresh_summary)
  subgoal by (rule onTafsirLanguageChange_summary)
  subgoal by (rule onLanguageChange_summary)
  subgoal by (rule onLanguageChange_failed)
  done

theorem preferences_repair_witness:
  "tafsir (plugin_settings (setDefaultTafsir
       ((newTab (DEFAULT_SETTINGS\<lparr>tafsir := js ''gone''\<rparr>))
          \<lparr>tafsirEditions := tafsirsFor exampleHost (js ''en'') [bayan, kathir, maarif]\<rparr>))) =
     js ''en-tafisr-ibn-kathir''
   \<and> tafsir (plugin_settings (snd (fetchMetadata exampleHost (exampleCatalogs [bayan, kathir, maarif])
        (newTab (DEFAULT_SETTINGS\<lparr>tafsir := js ''gone''\<rparr>))))) = js ''en-tafisr-ibn-kathir''
   \<and> tafsir (last (saved (snd (fetchMetadata exampleHost (exampleCatalogs [bayan, kathir, maarif])
        (newTab (DEFAULT_SETTINGS\<lparr>tafsir := js ''gone''\<rparr>)))))) = js ''en-tafisr-ibn-kathir''
   \<and> tafsir (plugin_settings (snd (onTafsirLanguageChange exampleHost (exampleCatalogs [bayan, kathir, maarif])
        (js ''urdu'')
        (snd (fetchMetadata exampleHost (exampleCatalogs [bayan, kathir, maarif])
           (newTab (DEFAULT_SETTINGS\<lparr>tafsir := js ''gone''\<rparr>))))))) = js ''ur-tafsir-bayan-ul-quran''
   \<and> tafsir (last (saved (snd (onTafsirLanguageChange exampleHost (exampleCatalogs [bayan, kathir, maarif])
        (js ''urdu'')
        (snd (fetchMetadata exampleHost (exampleCatalogs [bayan, kathir, maarif])
           (newTab (DEFAULT_SETTINGS\<lparr>tafsir := js ''gone''\<rparr>)))))))) = js ''ur-tafsir-bayan-ul-quran''
   \<and> translation (plugin_settings (snd (onLanguageChange (exampleCatalogs [bayan, kathir, maarif]) (js ''fr'')
        (snd (fetchMetadata exampleHost (exampleCatalogs [bayan, kathir, maarif])
           (newTab (DEFAULT_SETTINGS\<lparr>tafsir := js ''gone''\<rparr>))))))) = js ''fr.hamidullah''
   \<and> translation (last (saved (snd (onLanguageChange (exampleCatalogs [bayan, kathir, maarif]) (js ''fr'')
        (snd (fetchMetadata exampleHost (exampleCatalogs [bayan, kathir, maarif])
           (newTab (DEFAULT_SETTINGS\<lparr>tafsir := js ''gone''\<rparr>)))))))) = js ''fr.hamidullah''
   \<and> language (last (saved (snd (onLanguageChange offline (js ''fr'')
        (snd (fetchMetadata exampleHost (exampleCatalogs [bayan, kathir, maarif])
           (newTab (DEFAULT_SETTINGS\<lparr>tafsir := js ''gone''\<rparr>)))))))) = js ''fr''
   \<and> translation (last (saved (snd (onLanguageChange offline (js ''fr'')
        (snd (fetchMetadata exampleHost (exampleCatalogs [bayan, kathir, maarif])
           (newTab (DEFAULT_SETTINGS\<lparr>tafsir := js ''gone''\<rparr>)))))))) = js ''en.itani''"
proof -
  let ?r = "exampleCatalogs [bayan, kathir, maarif]"
  let ?s = "newTab (DEFAULT_SETTINGS\<lparr>tafsir := js ''gone''\<rparr>)"
  let ?F = "?s\<lparr>tafsirEditions := tafsirsFor exampleHost (js ''en'') [bayan, kathir, maarif]\<rparr>"
  let ?s1 = "snd (fetchMetadata exampleHost ?r ?s)"
  let ?s2 = "snd (onTafsirLanguageChange exampleHost ?r (js ''urdu'') ?s1)"
  let ?s3 = "snd (onLanguageChange ?r (js ''fr'') ?s1)"
  let ?lj = "\<lparr>code = 200, status = js ''OK'', data = [js ''fr'', js ''en'']\<rparr>"
  let ?ej = "\<lparr>code = 200, status = js ''OK'', data = [itani]\<rparr>"
  let ?fj = "\<lparr>code = 200, status = js ''OK'', data = [hamidullah]\<rparr>"
  let ?ke = "\<lparr>e_identifier = js ''en-tafisr-ibn-kathir'', e_language = js ''english'',
              name = js ''Tafsir Ibn Kathir (abridged)'', englishName = js ''Hafiz Ibn Kathir'',
              format = js ''text'', e_type = js ''tafsir'', direction = None\<rparr>"
  let ?me = "\<lparr>e_identifier = js ''en-tafsir-maarif-ul-quran'', e_language = js ''english'',
              name = js ''Maarif-ul-Quran'', englishName = js ''Mufti Muhammad Shafi'',
              format = js ''text'', e_type = js ''tafsir'', direction = None\<rparr>"
  let ?be = "\<lparr>e_identifier = js ''ur-tafsir-bayan-ul-quran'', e_language = js ''urdu'',
              name = js ''Bayan ul Quran'', englishName = js ''Maulana Ashraf Ali Thanwi'',
              format = js ''text'', e_type = js ''tafsir'', direction = None\<rparr>"
  let ?TL = "deriveTafsirLanguages exampleHost (languageEntries exampleHost (data ?lj)) [bayan, kathir, maarif]"
  have h: "\<not> isLoadingMetadata ?s \<and> languageRes ?r = WellTyped ?lj
     \<and> editionRes ?r (translationEditionUrl (language (plugin_settings ?s))) = WellTyped ?ej
     \<and> tafsirRes ?r = WellTyped [bayan, kathir, maarif]"
    by (simp add: exampleCatalogs_def newTab_def DEFAULT_SETTINGS_def)
  have h4: "tafsirRes ?r = WellTyped [bayan, kathir, maarif]" by (simp add: exampleCatalogs_def)
  have g: "editionRes ?r (translationEditionUrl (js ''fr'')) = WellTyped ?fj"
    by (simp add: exampleCatalogs_def translationEditionUrl_def)
  have off: "editionRes offline (translationEditionUrl (js ''fr'')) = Unreachable"
    by (simp add: offline_def)
  have kE: "tafsirsFor exampleHost (js ''en'') [bayan, kathir, maarif] = [?ke, ?me]" by code_simp
  have gone: "tafsir (plugin_settings ?s) = js ''gone''" by (simp add: newTab_def)
  have ul0: "unlisted (js ''gone'') [?ke, ?me]" by code_simp
  have p: "tafsirEditions ?F = ?ke # [?me]
         \<and> unlisted (tafsir (plugin_settings ?F)) (tafsirEditions ?F)"
    using kE ul0 by (simp add: newTab_def)
  note inst = preferences_repair
                [where h = exampleHost and r = "?r" and s = "?s" and lj = "?lj" and ej = "?ej"
                   and tj = "[bayan, kathir, maarif]" and ?r1.0 = "?r" and ?tj1.0 = "[bayan, kathir, maarif]"
                   and ?val1.0 = "js ''urdu''" and ?s1.0 = "?s1"
                   and ?r2.0 = "?r" and ?val2.0 = "js ''fr''" and ?ej2.0 = "?fj" and ?s2.0 = "?s1"
                   and ?r3.0 = offline and ?val3.0 = "js ''fr''" and ?s3.0 = "?s1",
                 unfolded Let_def]
  note phase = inst [THEN conjunct1, rule_format, OF p]
  note refresh = inst [THEN conjunct2, THEN conjunct1, rule_format, OF h]
  note tswitch = inst [THEN conjunct2, THEN conjunct2, THEN conjunct1, rule_format, OF h4]
  note lswitch = inst [THEN conjunct2, THEN conjunct2, THEN conjunct2, THEN conjunct1,
                       rule_format, OF g]
  note failed = inst [THEN conjunct2, THEN conjunct2, THEN conjunct2, THEN conjunct2,
                      rule_format, OF off]
  have 1: "tafsir (plugin_settings (setDefaultTafsir ?F)) = js ''en-tafisr-ibn-kathir''"
    using phase by simp
  have C1: "tafsirsFor exampleHost (reconciledCode ?TL (tafsirLanguage (plugin_settings ?s)))
              [bayan, kathir, maarif] = [?ke, ?me]"
    by code_simp
  note tail1 = refresh [THEN conjunct2, THEN conjunct2, THEN conjunct2, THEN conjunct2,
                        THEN conjunct2, THEN conjunct2, unfolded C1 gone list.case]
  have r1: "plugin_settings ?s1 =
      (plugin_settings ?s)
        \<lparr>tafsirLanguage := reconciledCode ?TL (tafsirLanguage (plugin_settings ?s)),
         tafsir := e_identifier ?ke, tafsirName := name ?ke\<rparr>
      \<and> saved ?s1 \<noteq> [] \<and> last (saved ?s1) = plugin_settings ?s1"
    using tail1 [THEN conjunct2] ul0 by simp
  have 2: "tafsir (plugin_settings ?s1) = js ''en-tafisr-ibn-kathir''"
    using r1 by simp
  have 3: "tafsir (last (saved ?s1)) = js ''en-tafisr-ibn-kathir''"
    using r1 2 by simp
  have h1: "\<not> isLoadingMetadata ?s" and h2: "languageRes ?r = WellTyped ?lj"
    and h3: "editionRes ?r (translationEditionUrl (language (plugin_settings ?s))) = WellTyped ?ej"
    using h by simp_all
  have langs: "languages ?s1 = languageEntries exampleHost (data ?lj)"
    using refresh_state [where h = exampleHost, OF h1 h2 h3 h4] by (rule_tac conjunct1 [OF conjunct2])
  have C2: "tafsirsFor exampleHost (reconciledCode ?TL (js ''urdu'')) [bayan, kathir, maarif] = [?be]"
    by code_simp
  have ul2: "unlisted (js ''en-tafisr-ibn-kathir'') [?be]" by code_simp
  note tail2 = tswitch [THEN conjunct2, THEN conjunct2, THEN conjunct2, THEN conjunct2,
                        unfolded langs C2 2 list.case]
  have r2: "plugin_settings ?s2 =
      (plugin_settings ?s1)
        \<lparr>tafsirLanguage := reconciledCode ?TL (js ''urdu''),
         tafsir := e_identifier ?be, tafsirName := name ?be\<rparr>
      \<and> saved ?s2 \<noteq> [] \<and> last (saved ?s2) = plugin_settings ?s2"
    using tail2 [THEN conjunct2] ul2 by simp
  have 4: "tafsir (plugin_settings ?s2) = js ''ur-tafsir-bayan-ul-quran''"
    using r2 by simp
  have 5: "tafsir (last (saved ?s2)) = js ''ur-tafsir-bayan-ul-quran''"
    using r2 4 by simp
  have fr: "filter (\<lambda>e. format e = js ''text'' \<and> e_type e = js ''translation'') (data ?fj) =
              [hamidullah]"
    by (simp add: hamidullah_def)
  have eds: "editions ?s3 = [hamidullah]"
    using lswitch [THEN conjunct2, THEN conjunct1] fr by (rule trans)
  have "translation (plugin_settings ?s3) =
         (case editions ?s3 of
            [] \<Rightarrow> translation (plugin_settings ?s1) | e # _ \<Rightarrow> e_identifier e)"
    by (rule lswitch [THEN conjunct2, THEN conjunct2, THEN conjunct2, THEN conjunct1])
  then have 6: "translation (plugin_settings ?s3) = js ''fr.hamidullah''"
    unfolding eds by (simp add: hamidullah_def)
  have "translation (last (saved ?s3)) = translation (plugin_settings ?s3)"
    by (rule lswitch [THEN conjunct2, THEN conjunct2, THEN conjunct2, THEN conjunct2,
                      THEN conjunct2, THEN conjunct2, THEN conjunct2])
  then have 7: "translation (last (saved ?s3)) = js ''fr.hamidullah''"
    using 6 by (rule trans)
  have start: "translation (plugin_settings ?s) = js ''en.itani''"
    by (simp add: newTab_def DEFAULT_SETTINGS_def)
  have tr1: "translation (plugin_settings ?s1) = js ''en.itani''"
    using refresh [THEN conjunct2, THEN conjunct1] start by (rule trans)
  have 8: "language (last (saved (snd (onLanguageChange offline (js ''fr'') ?s1)))) = js ''fr''"
    by (rule failed [THEN conjunct2, THEN conjunct2, THEN conjunct2, THEN conjunct2,
                     THEN conjunct2, THEN conjunct1])
  have 9: "translation (last (saved (snd (onLanguageChange offline (js ''fr'') ?s1)))) = js ''en.itani''"
    using failed [THEN conjunct2, THEN conjunct2, THEN conjunct2, THEN conjunct2,
                  THEN conjunct2, THEN conjunct2] tr1
    by (rule trans)
  from 1 2 3 4 5 6 7 8 9 show ?thesis by (intro conjI)
qed

text \<open>
  C5 as the claim states it fails, on states the tab reaches. A first refresh lists
  English, French and Urdu. A switch to French while the edition service is down saves
  French together with the English edition id, and the next refresh, with the service
  up again and French editions fetched, leaves that id in place. A switch to Urdu, for
  which only a recitation is fetched, saves Urdu with the English edition id: there is
  no first edition to substitute. And a refresh whose tafsir catalog is empty ends with
  an empty tafsir id, which belongs to no catalog.
\<close>

theorem preference_invariant_counterexample:
  "map l_code (languages (snd (fetchMetadata exampleHost sparseCatalogs (newTab DEFAULT_SETTINGS)))) =
     [js ''en'', js ''fr'', js ''ur'']
   \<and> language (last (saved (snd (onLanguageChange offline (js ''fr'')
        (snd (fetchMetadata exampleHost sparseCatalogs (newTab DEFAULT_SETTINGS))))))) = js ''fr''
   \<and> translation (last (saved (snd (onLanguageChange offline (js ''fr'')
        (snd (fetchMetadata exampleHost sparseCatalogs (newTab DEFAULT_SETTINGS))))))) = js ''en.itani''
   \<and> fst (fetchMetadata exampleHost sparseCatalogs (snd (onLanguageChange offline (js ''fr'')
        (snd (fetchMetadata exampleHost sparseCatalogs (newTab DEFAULT_SETTINGS)))))) = None
   \<and> language (plugin_settings (snd (fetchMetadata exampleHost sparseCatalogs
        (snd (onLanguageChange offline (js ''fr'')
           (snd (fetchMetadata exampleHost sparseCatalogs (newTab DEFAULT_SETTINGS)))))))) = js ''fr''
   \<and> translation (plugin_settings (snd (fetchMetadata exampleHost sparseCatalogs
        (snd (onLanguageChange offline (js ''fr'')
           (snd (fetchMetadata exampleHost sparseCatalogs (newTab DEFAULT_SETTINGS)))))))) = js ''en.itani''
   \<and> map e_identifier (editions (snd (fetchMetadata exampleHost sparseCatalogs
        (snd (onLanguageChange offline (js ''fr'')
           (snd (fetchMetadata exampleHost sparseCatalogs (newTab DEFAULT_SETTINGS)))))))) =
       [js ''fr.hamidullah'']
   \<and> fst (onLanguageChange sparseCatalogs (js ''ur'')
        (snd (fetchMetadata exampleHost sparseCatalogs (newTab DEFAULT_SETTINGS)))) = None
   \<and> editions (snd (onLanguageChange sparseCatalogs (js ''ur'')
        (snd (fetchMetadata exampleHost sparseCatalogs (newTab DEFAULT_SETTINGS))))) = []
   \<and> language (last (saved (snd (onLanguageChange sparseCatalogs (js ''ur'')
        (snd (fetchMetadata exampleHost sparseCatalogs (newTab DEFAULT_SETTINGS))))))) = js ''ur''
   \<and> translation (last (saved (snd (onLanguageChange sparseCatalogs (js ''ur'')
        (snd (fetchMetadata exampleHost sparseCatalogs (newTab DEFAULT_SETTINGS))))))) = js ''en.itani''
   \<and> tafsirEditions (snd (fetchMetadata exampleHost (exampleCatalogs []) (newTab DEFAULT_SETTINGS))) = []
   \<and> tafsir (plugin_settings
        (snd (fetchMetadata exampleHost (exampleCatalogs []) (newTab DEFAULT_SETTINGS)))) = []
   \<and> tafsir (last (saved
        (snd (fetchMetadata exampleHost (exampleCatalogs []) (newTab DEFAULT_SETTINGS))))) = []"
proof -
  let ?r = sparseCatalogs
  let ?s = "newTab DEFAULT_SETTINGS"
  let ?t0 = "snd (fetchMetadata exampleHost ?r ?s)"
  let ?t1 = "snd (onLanguageChange offline (js ''fr'') ?t0)"
  let ?t2 = "snd (fetchMetadata exampleHost ?r ?t1)"
  let ?t3 = "snd (onLanguageChange ?r (js ''ur'') ?t0)"
  let ?e = "exampleCatalogs []"
  let ?u = "snd (fetchMetadata exampleHost ?e ?s)"
  let ?lj = "\<lparr>code = 200, status = js ''OK'', data = [js ''en'', js ''fr'', js ''ur'']\<rparr>"
  let ?lj' = "\<lparr>code = 200, status = js ''OK'', data = [js ''fr'', js ''en'']\<rparr>"
  let ?ej = "\<lparr>code = 200, status = js ''OK'', data = [itani]\<rparr>"
  let ?fj = "\<lparr>code = 200, status = js ''OK'', data = [hamidullah]\<rparr>"
  let ?uj = "\<lparr>code = 200, status = js ''OK'', data = [urduAudio]\<rparr>"
  have h1: "\<not> isLoadingMetadata ?s" by (simp add: newTab_def)
  have h2: "languageRes ?r = WellTyped ?lj" by (simp add: sparseCatalogs_def)
  have h3: "editionRes ?r (translationEditionUrl (language (plugin_settings ?s))) = WellTyped ?ej"
    by (simp add: sparseCatalogs_def newTab_def DEFAULT_SETTINGS_def)
  have h4: "tafsirRes ?r = WellTyped [kathir]" by (simp add: sparseCatalogs_def)
  note st0 = refresh_state [where h = exampleHost, OF h1 h2 h3 h4]
  note sm0 = refresh_summary [where h = exampleHost, OF h1 h2 h3 h4]
  have start: "translation (plugin_settings ?s) = js ''en.itani''"
    by (simp add: newTab_def DEFAULT_SETTINGS_def)
  have idle0: "\<not> isLoadingMetadata ?t0" using st0 by (rule conjunct1)
  have langs0: "languages ?t0 = languageEntries exampleHost (data ?lj)"
    using st0 by (rule_tac conjunct1 [OF conjunct2])
  have codes: "map l_code (languageEntries exampleHost (data ?lj)) = [js ''en'', js ''fr'', js ''ur'']"
    by code_simp
  have 1: "map l_code (languages ?t0) = [js ''en'', js ''fr'', js ''ur'']"
    unfolding langs0 by (rule codes)
  have tr0: "translation (plugin_settings ?t0) = js ''en.itani''"
    using sm0 [THEN conjunct2, THEN conjunct1] start by (rule trans)
  have off: "editionRes offline (translationEditionUrl (js ''fr'')) = Unreachable"
    by (simp add: offline_def)
  note f1 = onLanguageChange_failed [where s = "?t0", OF off]
  have idle1: "\<not> isLoadingMetadata ?t1" using f1 idle0 by simp
  have la1: "language (plugin_settings ?t1) = js ''fr''" using f1 by blast
  have tr1: "translation (plugin_settings ?t1) = js ''en.itani''" using f1 tr0 by simp
  have 2: "language (last (saved ?t1)) = js ''fr''" using f1 by blast
  have 3: "translation (last (saved ?t1)) = js ''en.itani''" using f1 tr0 by simp
  have k3: "editionRes ?r (translationEditionUrl (language (plugin_settings ?t1))) = WellTyped ?fj"
    unfolding la1 by (simp add: sparseCatalogs_def translationEditionUrl_def)
  note sm2 = refresh_summary [where h = exampleHost, OF idle1 h2 k3 h4]
  have 4: "fst (fetchMetadata exampleHost ?r ?t1) = None" using sm2 by (rule conjunct1)
  have 5: "language (plugin_settings ?t2) = js ''fr''"
    using sm2 [THEN conjunct2, THEN conjunct2, THEN conjunct1] la1 by (rule trans)
  have 6: "translation (plugin_settings ?t2) = js ''en.itani''"
    using sm2 [THEN conjunct2, THEN conjunct1] tr1 by (rule trans)
  have fl: "filter (\<lambda>e. format e = js ''text'' \<and> e_type e = js ''translation'') (data ?fj) =
              [hamidullah]"
    by (simp add: hamidullah_def)
  have "editions ?t2 = [hamidullah]"
    using sm2 [THEN conjunct2, THEN conjunct2, THEN conjunct2, THEN conjunct1] fl by (rule trans)
  then have 7: "map e_identifier (editions ?t2) = [js ''fr.hamidullah'']"
    by (simp add: hamidullah_def)
  have g: "editionRes ?r (translationEditionUrl (js ''ur'')) = WellTyped ?uj"
    by (simp add: sparseCatalogs_def translationEditionUrl_def)
  note sw = onLanguageChange_summary [where s = "?t0", OF g]
  have none: "filter (\<lambda>e. format e = js ''text'' \<and> e_type e = js ''translation'') (data ?uj) = []"
    by code_simp
  have 8: "fst (onLanguageChange ?r (js ''ur'') ?t0) = None" using sw by (rule conjunct1)
  have 9: "editions ?t3 = []"
    using sw [THEN conjunct2, THEN conjunct1] none by (rule trans)
  have 10: "language (last (saved ?t3)) = js ''ur''" using sw by blast
  have "translation (plugin_settings ?t3) =
         (case editions ?t3 of
            [] \<Rightarrow> translation (plugin_settings ?t0) | e # _ \<Rightarrow> e_identifier e)"
    by (rule sw [THEN conjunct2, THEN conjunct2, THEN conjunct2, THEN conjunct1])
  then have tr3: "translation (plugin_settings ?t3) = js ''en.itani''"
    unfolding 9 using tr0 by simp
  have "translation (last (saved ?t3)) = translation (plugin_settings ?t3)"
    by (rule sw [THEN conjunct2, THEN conjunct2, THEN conjunct2, THEN conjunct2,
                 THEN conjunct2, THEN conjunct2, THEN conjunct2])
  then have 11: "translation (last (saved ?t3)) = js ''en.itani''"
    using tr3 by (rule trans)
  have e2: "languageRes ?e = WellTyped ?lj'" by (simp add: exampleCatalogs_def)
  have e3: "editionRes ?e (translationEditionUrl (language (plugin_settings ?s))) = WellTyped ?ej"
    by (simp add: exampleCatalogs_def newTab_def DEFAULT_SETTINGS_def)
  have e4: "tafsirRes ?e = WellTyped []" by (simp add: exampleCatalogs_def)
  note smu = refresh_summary [where h = exampleHost, OF h1 e2 e3 e4]
  have noT: "\<And>l. tafsirsFor exampleHost l [] = []" by (simp add: tafsirsFor_def)
  have 12: "tafsirEditions ?u = []"
    using smu [THEN conjunct2, THEN conjunct2, THEN conjunct2, THEN conjunct2,
               THEN conjunct2, THEN conjunct1]
    unfolding noT .
  note tailu = smu [THEN conjunct2, THEN conjunct2, THEN conjunct2, THEN conjunct2,
                    THEN conjunct2, THEN conjunct2, unfolded noT list.case]
  have 13: "tafsir (plugin_settings ?u) = []"
    using tailu [THEN conjunct1] by simp
  have "last (saved ?u) = plugin_settings ?u"
    by (rule tailu [THEN conjunct2, THEN conjunct2])
  then have 14: "tafsir (last (saved ?u)) = []" using 13 by simp
  from 1 2 3 4 5 6 7 8 9 10 11 12 13 14 show ?thesis by (intro conjI)
qed

section \<open>Language names\<close>

lemma customNames_nonempty: "customNames k = Some n \<Longrightarrow> n \<noteq> []"
  by (auto simp: customNames_def js_def split: if_splits)

text \<open>
  C8, as the code has it. \<open>getFullLanguageName\<close> reads the override table first, by
  the lower-cased code; when the table has no entry it asks \<open>Intl.DisplayNames\<close>, if
  that is a function, and takes a non-empty name it returns; when neither gives a name
  (no entry, and the service is missing, throws, or returns \<open>undefined\<close> or the empty
  string) the result is the code itself, as given.
\<close>

theorem getFullLanguageName_resolution:
  "(customNames (toLowerCase h c) = Some n \<longrightarrow> getFullLanguageName h c = n)
   \<and> (customNames (toLowerCase h c) = None \<and> hasDisplayNames h
        \<and> displayNameOf h c = Name n \<and> n \<noteq> [] \<longrightarrow> getFullLanguageName h c = n)
   \<and> (customNames (toLowerCase h c) = None
        \<and> (\<not> hasDisplayNames h \<or> displayNameOf h c = Throws \<or> displayNameOf h c = Undefined
             \<or> displayNameOf h c = Name []) \<longrightarrow> getFullLanguageName h c = c)"
proof (intro conjI impI)
  assume a: "customNames (toLowerCase h c) = Some n"
  then have "n \<noteq> []" by (rule customNames_nonempty)
  then show "getFullLanguageName h c = n"
    using a by (simp add: getFullLanguageName_def truthy_def orElse_def)
next
  assume "customNames (toLowerCase h c) = None \<and> hasDisplayNames h
        \<and> displayNameOf h c = Name n \<and> n \<noteq> []"
  then show "getFullLanguageName h c = n"
    by (simp add: getFullLanguageName_def truthy_def orElse_def)
next
  assume "customNames (toLowerCase h c) = None
        \<and> (\<not> hasDisplayNames h \<or> displayNameOf h c = Throws \<or> displayNameOf h c = Undefined
             \<or> displayNameOf h c = Name [])"
  then show "getFullLanguageName h c = c"
    by (auto simp: getFullLanguageName_def truthy_def orElse_def)
qed

theorem getFullLanguageName_resolution_witness:
  "getFullLanguageName exampleHost (js ''BER'') = js ''Berber''
   \<and> getFullLanguageName exampleHost (js ''en'') = js ''English''
   \<and> getFullLanguageName exampleHost (js ''zh_tw'') = js ''zh_tw''"
proof -
  have lo: "toLowerCase exampleHost (js ''BER'') = js ''ber''"
    "toLowerCase exampleHost (js ''en'') = js ''en''"
    "toLowerCase exampleHost (js ''zh_tw'') = js ''zh_tw''"
    by (simp_all add: exampleHost_def asciiLower_def js_def)
  have a: "customNames (toLowerCase exampleHost (js ''BER'')) = Some (js ''Berber'')"
    unfolding lo by (simp add: customNames_def)
  have b: "customNames (toLowerCase exampleHost (js ''en'')) = None \<and> hasDisplayNames exampleHost
        \<and> displayNameOf exampleHost (js ''en'') = Name (js ''English'') \<and> js ''English'' \<noteq> []"
    unfolding lo by (simp add: customNames_def exampleHost_def js_def)
  have c: "customNames (toLowerCase exampleHost (js ''zh_tw'')) = None
        \<and> (\<not> hasDisplayNames exampleHost \<or> displayNameOf exampleHost (js ''zh_tw'') = Throws
             \<or> displayNameOf exampleHost (js ''zh_tw'') = Undefined
             \<or> displayNameOf exampleHost (js ''zh_tw'') = Name [])"
    unfolding lo by (simp add: customNames_def exampleHost_def)
  have 1: "getFullLanguageName exampleHost (js ''BER'') = js ''Berber''"
    using getFullLanguageName_resolution
            [where h = exampleHost and c = "js ''BER''" and n = "js ''Berber''"] a
    by blast
  have 2: "getFullLanguageName exampleHost (js ''en'') = js ''English''"
    using getFullLanguageName_resolution
            [where h = exampleHost and c = "js ''en''" and n = "js ''English''"] b
    by blast
  have 3: "getFullLanguageName exampleHost (js ''zh_tw'') = js ''zh_tw''"
    using getFullLanguageName_resolution
            [where h = exampleHost and c = "js ''zh_tw''" and n = "[]"] c
    by blast
  from 1 2 3 show ?thesis by (intro conjI)
qed

text \<open>
  C8 as the claim states it fails: for a code that the table does not have and on
  which the service throws, the result is the code as given, which is not its
  upper-case form.
\<close>

theorem uppercase_fallback_counterexample:
  "customNames (toLowerCase exampleHost (js ''zh_tw'')) = None
   \<and> displayNameOf exampleHost (js ''zh_tw'') = Throws
   \<and> getFullLanguageName exampleHost (js ''zh_tw'') = js ''zh_tw''
   \<and> toUpperCase exampleHost (js ''zh_tw'') = js ''ZH_TW''
   \<and> getFullLanguageName exampleHost (js ''zh_tw'') \<noteq> toUpperCase exampleHost (js ''zh_tw'')"
proof -
  have lo: "toLowerCase exampleHost (js ''zh_tw'') = js ''zh_tw''"
    by (simp add: exampleHost_def asciiLower_def js_def)
  have up: "toUpperCase exampleHost (js ''zh_tw'') = js ''ZH_TW''"
    by (simp add: exampleHost_def asciiUpper_def js_def)
  have cn: "customNames (js ''zh_tw'') = None" by (simp add: customNames_def)
  have dn: "displayNameOf exampleHost (js ''zh_tw'') = Throws" by (simp add: exampleHost_def)
  have hd: "hasDisplayNames exampleHost" by (simp add: exampleHost_def)
  have g: "getFullLanguageName exampleHost (js ''zh_tw'') = js ''zh_tw''"
    by (simp add: getFullLanguageName_def lo cn dn hd truthy_def)
  show ?thesis unfolding lo up g using cn dn by simp
qed

text \<open>The first revision did fall back to the upper-cased code.\<close>

lemma getFullLanguageName_rev1_fallback:
  "manualMap c = None \<Longrightarrow>
   \<not> hasDisplayNames h \<or> displayNameOf h c = Throws \<or> displayNameOf h c = Undefined
     \<or> displayNameOf h c = Name [] \<Longrightarrow>
   getFullLanguageName_rev1 h c = toUpperCase h c"
  by (auto simp: getFullLanguageName_rev1_def truthy_def orElse_def)

end
